theory Spec2Isabelle
  imports Main "HOL-Library.Sublist"
begin

section \<open>The GitHub file operations server: commit_files and delete_files\<close>

text \<open>
  The two tool handlers of the file operations server build one commit from a list of
  paths through five calls to the Git data API of the hosting service: read the branch
  reference, read the base commit, create a tree, create a commit, move the reference.
  The model follows the source line by line. What the source leaves to its platform is
  explicit here:
  \<^item> a thrown \<open>Error\<close> is the left summand of a sum, and carries the error's message
    (the only part of it the handlers' \<open>catch\<close> reads);
  \<^item> \<open>fetch\<close> is a parameter: a function from the state of the world and a request to
    a response (or a rejection) and the next state of the world;
  \<^item> every run returns, beside its result, the exchanges it made, in order;
  \<^item> \<open>readFile\<close> is a parameter as well: a function from a local path to the file's text
    or a rejection.
  A string is a list of characters, one per code unit of the source's strings.
\<close>

subsection \<open>JSON values, requests, responses\<close>

datatype jvalue =
    JNull
  | JBool bool
  | JStr string
  | JArr "jvalue list"
  | JObj "(string \<times> jvalue) list"

datatype http_method = GET | POST | PATCH

text \<open>A request as \<open>fetch\<close> sends it: the HTTP verb (\<open>GET\<close> when the source names
  none), the address, the headers and the body. The body is kept as the JSON value handed
  to \<open>JSON.stringify\<close>.\<close>


record request =
  http_verb :: http_method
  url :: string
  headers :: "(string \<times> string) list"
  body :: "jvalue option"

type_synonym exn = string

text \<open>
  The parsed body of a response. The source reads it through unchecked type assertions
  (\<open>as GitHubRef\<close>, \<open>as GitHubCommit\<close>, \<open>as GitHubTree\<close>, \<open>as GitHubNewCommit\<close>); the
  model takes the body at those types and holds the fields the handlers read:
  \<open>object.sha\<close>, \<open>tree.sha\<close>, \<open>sha\<close>, \<open>message\<close>, \<open>author.name\<close>, \<open>author.date\<close>.
\<close>

record json_body =
  object_sha :: string
  tree_sha :: string
  sha :: string
  message :: string
  author_name :: string
  author_date :: string

text \<open>A response: its status, its body as \<open>text()\<close> gives it (a string) and as
  \<open>json()\<close> gives it (\<open>json()\<close> rejects when the body is not JSON).\<close>

record response =
  status :: nat
  body_text :: string
  body_json :: "exn + json_body"

text \<open>\<open>response.ok\<close> of node-fetch: the status is in the range 200 to 299.\<close>

definition ok :: "response \<Rightarrow> bool" where
  "ok r = (200 \<le> status r \<and> status r < 300)"

type_synonym 'w fetch = "'w \<Rightarrow> request \<Rightarrow> (exn + response) \<times> 'w"

type_synonym exchange = "request \<times> (exn + response)"

type_synonym 'w net = "'w \<times> exchange list"

text \<open>One \<open>await fetch(...)\<close>: the world answers and moves on, the exchange is recorded.\<close>

definition do_fetch :: "'w fetch \<Rightarrow> request \<Rightarrow> 'w net \<Rightarrow> (exn + response) \<times> 'w net" where
  "do_fetch fetch q s =
     (case fetch (fst s) q of (r, w') \<Rightarrow> (r, (w', snd s @ [(q, r)])))"

subsection \<open>Strings and paths\<close>

definition startsWith :: "string \<Rightarrow> string \<Rightarrow> bool" where
  "startsWith s p = (take (length p) s = p)"

text \<open>\<open>s.slice(n)\<close> for an index \<open>n\<close> that is not negative.\<close>

definition slice_from :: "string \<Rightarrow> nat \<Rightarrow> string" where
  "slice_from s n = drop n s"

definition digit_char :: "nat \<Rightarrow> char" where
  "digit_char d = char_of (48 + d)"

text \<open>A number that is a natural, as a template literal prints it.\<close>

fun show_nat :: "nat \<Rightarrow> string" where
  "show_nat n = (if n < 10 then [digit_char n] else show_nat (n div 10) @ [digit_char (n mod 10)])"

declare show_nat.simps [simp del]

text \<open>
  \<open>join\<close> of Node's \<open>path\<close> module on a POSIX platform, for two arguments: the arguments
  that are not empty are put together with a separator and the result is normalised
  (\<open>.\<close> and empty segments go, \<open>..\<close> removes the segment before it, and is kept at the
  front of a relative path only).
\<close>

fun segments :: "string \<Rightarrow> string list" where
  "segments [] = [[]]"
| "segments (c # cs) =
     (if c = CHR ''/'' then [] # segments cs
      else (case segments cs of [] \<Rightarrow> [[c]] | s # ss \<Rightarrow> (c # s) # ss))"

fun normalize_segments :: "bool \<Rightarrow> string list \<Rightarrow> string list \<Rightarrow> string list" where
  "normalize_segments allowAboveRoot res [] = rev res"
| "normalize_segments allowAboveRoot res (s # ss) =
     (if s = [] \<or> s = ''.'' then normalize_segments allowAboveRoot res ss
      else if s = ''..'' then
        (case res of
           [] \<Rightarrow> normalize_segments allowAboveRoot (if allowAboveRoot then [''..''] else []) ss
         | t # ts \<Rightarrow>
             if t = ''..''
             then normalize_segments allowAboveRoot (if allowAboveRoot then ''..'' # res else res) ss
             else normalize_segments allowAboveRoot ts ss)
      else normalize_segments allowAboveRoot (s # res) ss)"

fun join_segments :: "string list \<Rightarrow> string" where
  "join_segments [] = []"
| "join_segments [s] = s"
| "join_segments (s # t # ss) = s @ ''/'' @ join_segments (t # ss)"

definition normalize :: "string \<Rightarrow> string" where
  "normalize p =
     (if p = [] then ''.''
      else
        let isAbsolute = (hd p = CHR ''/'');
            trailingSeparator = (last p = CHR ''/'');
            res = join_segments (normalize_segments (\<not> isAbsolute) [] (segments p))
        in if res = [] then (if isAbsolute then ''/'' else if trailingSeparator then ''./'' else ''.'')
           else (if isAbsolute then ''/'' else []) @ res @ (if trailingSeparator then ''/'' else []))"

definition path_join :: "string \<Rightarrow> string \<Rightarrow> string" where
  "path_join a b =
     (let joined = (if a = [] then b else if b = [] then a else a @ ''/'' @ b)
      in if joined = [] then ''.'' else normalize joined)"

subsection \<open>The process environment\<close>

text \<open>
  What the server reads from its process: the environment variables, the working
  directory, and the constant \<open>GITHUB_API_URL\<close> of the configuration module. The server
  exits at start unless \<open>REPO_OWNER\<close>, \<open>REPO_NAME\<close> and \<open>BRANCH_NAME\<close> are set, so the
  handlers see them as strings.
\<close>

record env =
  GITHUB_API_URL :: string
  REPO_OWNER :: string
  REPO_NAME :: string
  BRANCH_NAME :: string
  env_REPO_DIR :: "string option"
  GITHUB_TOKEN :: "string option"
  cwd :: string

text \<open>\<open>process.env.REPO_DIR || process.cwd()\<close>: an unset or empty variable gives way.\<close>

definition REPO_DIR :: "env \<Rightarrow> string" where
  "REPO_DIR e = (case env_REPO_DIR e of None \<Rightarrow> cwd e | Some d \<Rightarrow> if d = [] then cwd e else d)"

subsection \<open>The five requests\<close>

definition get_headers :: "string \<Rightarrow> (string \<times> string) list" where
  "get_headers githubToken =
     [(''Accept'', ''application/vnd.github+json''),
      (''Authorization'', ''Bearer '' @ githubToken),
      (''X-GitHub-Api-Version'', ''2022-11-28'')]"

definition write_headers :: "string \<Rightarrow> (string \<times> string) list" where
  "write_headers githubToken = get_headers githubToken @ [(''Content-Type'', ''application/json'')]"

definition repo_url :: "env \<Rightarrow> string" where
  "repo_url e = GITHUB_API_URL e @ ''/repos/'' @ REPO_OWNER e @ ''/'' @ REPO_NAME e"

definition refUrl :: "env \<Rightarrow> string" where
  "refUrl e = repo_url e @ ''/git/refs/heads/'' @ BRANCH_NAME e"

definition commitUrl :: "env \<Rightarrow> string \<Rightarrow> string" where
  "commitUrl e baseSha = repo_url e @ ''/git/commits/'' @ baseSha"

definition treeUrl :: "env \<Rightarrow> string" where
  "treeUrl e = repo_url e @ ''/git/trees''"

definition newCommitUrl :: "env \<Rightarrow> string" where
  "newCommitUrl e = repo_url e @ ''/git/commits''"

definition get_ref_request :: "env \<Rightarrow> string \<Rightarrow> request" where
  "get_ref_request e githubToken =
     \<lparr>http_verb = GET, url = refUrl e, headers = get_headers githubToken, body = None\<rparr>"

definition get_commit_request :: "env \<Rightarrow> string \<Rightarrow> string \<Rightarrow> request" where
  "get_commit_request e githubToken baseSha =
     \<lparr>http_verb = GET, url = commitUrl e baseSha, headers = get_headers githubToken, body = None\<rparr>"

definition create_tree_request :: "env \<Rightarrow> string \<Rightarrow> string \<Rightarrow> jvalue list \<Rightarrow> request" where
  "create_tree_request e githubToken baseTreeSha treeEntries =
     \<lparr>http_verb = POST, url = treeUrl e, headers = write_headers githubToken,
      body = Some (JObj [(''base_tree'', JStr baseTreeSha), (''tree'', JArr treeEntries)])\<rparr>"

definition create_commit_request :: "env \<Rightarrow> string \<Rightarrow> string \<Rightarrow> string \<Rightarrow> string \<Rightarrow> request" where
  "create_commit_request e githubToken msg treeSha baseSha =
     \<lparr>http_verb = POST, url = newCommitUrl e, headers = write_headers githubToken,
      body = Some (JObj [(''message'', JStr msg), (''tree'', JStr treeSha),
                         (''parents'', JArr [JStr baseSha])])\<rparr>"

definition update_ref_request :: "env \<Rightarrow> string \<Rightarrow> string \<Rightarrow> request" where
  "update_ref_request e githubToken newSha =
     \<lparr>http_verb = PATCH, url = refUrl e, headers = write_headers githubToken,
      body = Some (JObj [(''sha'', JStr newSha), (''force'', JBool False)])\<rparr>"

subsection \<open>The steps\<close>

text \<open>Steps 1 and 2 read; a response that is not \<open>ok\<close> throws with the status alone.\<close>

definition get_branch_reference :: "env \<Rightarrow> string \<Rightarrow> 'w fetch \<Rightarrow> 'w net \<Rightarrow> (exn + string) \<times> 'w net" where
  "get_branch_reference e githubToken fetch s =
     (case do_fetch fetch (get_ref_request e githubToken) s of
        (Inl err, s') \<Rightarrow> (Inl err, s')
      | (Inr refResponse, s') \<Rightarrow>
          if \<not> ok refResponse
          then (Inl (''Failed to get branch reference: '' @ show_nat (status refResponse)), s')
          else (case body_json refResponse of
                  Inl err \<Rightarrow> (Inl err, s')
                | Inr refData \<Rightarrow> (Inr (object_sha refData), s')))"

definition get_base_commit :: "env \<Rightarrow> string \<Rightarrow> 'w fetch \<Rightarrow> string \<Rightarrow> 'w net \<Rightarrow> (exn + string) \<times> 'w net" where
  "get_base_commit e githubToken fetch baseSha s =
     (case do_fetch fetch (get_commit_request e githubToken baseSha) s of
        (Inl err, s') \<Rightarrow> (Inl err, s')
      | (Inr commitResponse, s') \<Rightarrow>
          if \<not> ok commitResponse
          then (Inl (''Failed to get base commit: '' @ show_nat (status commitResponse)), s')
          else (case body_json commitResponse of
                  Inl err \<Rightarrow> (Inl err, s')
                | Inr commitData \<Rightarrow> (Inr (tree_sha commitData), s')))"

text \<open>Steps 4 to 6 write; a response that is not \<open>ok\<close> throws with the status and the
  text of the response.\<close>

definition create_tree :: "env \<Rightarrow> string \<Rightarrow> 'w fetch \<Rightarrow> string \<Rightarrow> jvalue list \<Rightarrow> 'w net \<Rightarrow> (exn + json_body) \<times> 'w net" where
  "create_tree e githubToken fetch baseTreeSha treeEntries s =
     (case do_fetch fetch (create_tree_request e githubToken baseTreeSha treeEntries) s of
        (Inl err, s') \<Rightarrow> (Inl err, s')
      | (Inr treeResponse, s') \<Rightarrow>
          if \<not> ok treeResponse
          then (Inl (''Failed to create tree: '' @ show_nat (status treeResponse) @ '' - ''
                      @ body_text treeResponse), s')
          else (case body_json treeResponse of
                  Inl err \<Rightarrow> (Inl err, s')
                | Inr treeData \<Rightarrow> (Inr treeData, s')))"

definition create_commit :: "env \<Rightarrow> string \<Rightarrow> 'w fetch \<Rightarrow> string \<Rightarrow> string \<Rightarrow> string \<Rightarrow> 'w net \<Rightarrow> (exn + json_body) \<times> 'w net" where
  "create_commit e githubToken fetch msg treeSha baseSha s =
     (case do_fetch fetch (create_commit_request e githubToken msg treeSha baseSha) s of
        (Inl err, s') \<Rightarrow> (Inl err, s')
      | (Inr newCommitResponse, s') \<Rightarrow>
          if \<not> ok newCommitResponse
          then (Inl (''Failed to create commit: '' @ show_nat (status newCommitResponse) @ '' - ''
                      @ body_text newCommitResponse), s')
          else (case body_json newCommitResponse of
                  Inl err \<Rightarrow> (Inl err, s')
                | Inr newCommitData \<Rightarrow> (Inr newCommitData, s')))"

definition update_reference :: "env \<Rightarrow> string \<Rightarrow> 'w fetch \<Rightarrow> string \<Rightarrow> 'w net \<Rightarrow> (exn + unit) \<times> 'w net" where
  "update_reference e githubToken fetch newSha s =
     (case do_fetch fetch (update_ref_request e githubToken newSha) s of
        (Inl err, s') \<Rightarrow> (Inl err, s')
      | (Inr updateRefResponse, s') \<Rightarrow>
          if \<not> ok updateRefResponse
          then (Inl (''Failed to update reference: '' @ show_nat (status updateRefResponse) @ '' - ''
                      @ body_text updateRefResponse), s')
          else (Inr (), s'))"

subsection \<open>Paths and tree entries\<close>

text \<open>\<open>commit_files\<close>: one leading separator goes; nothing throws.\<close>

definition commit_processedFiles :: "string list \<Rightarrow> string list" where
  "commit_processedFiles files =
     map (\<lambda>filePath. if startsWith filePath ''/'' then slice_from filePath 1 else filePath) files"

text \<open>\<open>delete_files\<close>: a path that starts with a separator must start with the working
  directory, and loses as many characters as the working directory has, and one more.\<close>

definition delete_processedPath :: "string \<Rightarrow> string \<Rightarrow> exn + string" where
  "delete_processedPath cwd' filePath =
     (if startsWith filePath ''/'' then
        (if startsWith filePath cwd' then Inr (slice_from filePath (length cwd' + 1))
         else Inl (''Path '' @ [CHR 0x27] @ filePath @ [CHR 0x27]
                   @ '' must be relative to repository root or within current working directory''))
      else Inr filePath)"

text \<open>\<open>xs.map(f)\<close> for an \<open>f\<close> that may throw: the first throw, in the order of the list,
  ends the map.\<close>

fun map_throwing :: "('a \<Rightarrow> exn + 'b) \<Rightarrow> 'a list \<Rightarrow> exn + 'b list" where
  "map_throwing f [] = Inr []"
| "map_throwing f (x # xs) =
     (case f x of
        Inl err \<Rightarrow> Inl err
      | Inr y \<Rightarrow> (case map_throwing f xs of Inl err \<Rightarrow> Inl err | Inr ys \<Rightarrow> Inr (y # ys)))"

definition delete_processedPaths :: "string \<Rightarrow> string list \<Rightarrow> exn + string list" where
  "delete_processedPaths cwd' paths = map_throwing (delete_processedPath cwd') paths"

text \<open>The local file of a processed path: the path itself when it starts with a
  separator, else the path under the repository directory.\<close>

definition fullPath :: "env \<Rightarrow> string \<Rightarrow> string" where
  "fullPath e filePath = (if startsWith filePath ''/'' then filePath else path_join (REPO_DIR e) filePath)"

definition write_entry :: "string \<Rightarrow> string \<Rightarrow> jvalue" where
  "write_entry filePath fileContent =
     JObj [(''path'', JStr filePath), (''mode'', JStr ''100644''), (''type'', JStr ''blob''),
           (''content'', JStr fileContent)]"

definition delete_entry :: "string \<Rightarrow> jvalue" where
  "delete_entry filePath =
     JObj [(''path'', JStr filePath), (''mode'', JStr ''100644''), (''type'', JStr ''blob''),
           (''sha'', JNull)]"

text \<open>Step 3 of \<open>commit_files\<close>: \<open>Promise.all\<close> over the reads. When one read rejects
  the whole step rejects; the model reports the first rejection in the order of the list.\<close>

definition read_tree_entries :: "env \<Rightarrow> (string \<Rightarrow> exn + string) \<Rightarrow> string list \<Rightarrow> exn + jvalue list" where
  "read_tree_entries e readFile processedFiles =
     map_throwing
       (\<lambda>filePath. case readFile (fullPath e filePath) of
                     Inl err \<Rightarrow> Inl err
                   | Inr fileContent \<Rightarrow> Inr (write_entry filePath fileContent))
       processedFiles"

subsection \<open>The tool results\<close>

text \<open>The text of a content item: a string, or \<open>JSON.stringify(v, null, 2)\<close> of a value.\<close>

datatype content_text = Plain string | Stringified jvalue

record tool_result =
  content :: "content_text list"
  error :: "string option"
  isError :: bool

definition success_result :: "jvalue \<Rightarrow> tool_result" where
  "success_result simplifiedResult =
     \<lparr>content = [Stringified simplifiedResult], error = None, isError = False\<rparr>"

definition error_result :: "exn \<Rightarrow> tool_result" where
  "error_result errorMessage =
     \<lparr>content = [Plain (''Error: '' @ errorMessage)], error = Some errorMessage, isError = True\<rparr>"

definition commit_summary :: "json_body \<Rightarrow> jvalue" where
  "commit_summary newCommitData =
     JObj [(''sha'', JStr (sha newCommitData)), (''message'', JStr (message newCommitData)),
           (''author'', JStr (author_name newCommitData)), (''date'', JStr (author_date newCommitData))]"

definition path_list :: "string list \<Rightarrow> jvalue" where
  "path_list ps = JArr (map (\<lambda>p. JObj [(''path'', JStr p)]) ps)"

subsection \<open>The handlers\<close>

text \<open>The \<open>try\<close> block of \<open>commit_files\<close>.\<close>

definition commit_files_try ::
  "env \<Rightarrow> (string \<Rightarrow> exn + string) \<Rightarrow> 'w fetch \<Rightarrow> string list \<Rightarrow> string \<Rightarrow> 'w net \<Rightarrow> (exn + jvalue) \<times> 'w net" where
  "commit_files_try e readFile fetch files msg s0 =
     (case GITHUB_TOKEN e of
        None \<Rightarrow> (Inl ''GITHUB_TOKEN environment variable is required'', s0)
      | Some githubToken \<Rightarrow>
     if githubToken = [] then (Inl ''GITHUB_TOKEN environment variable is required'', s0)
     else
     let processedFiles = commit_processedFiles files in
     (case get_branch_reference e githubToken fetch s0 of
        (Inl err, s1) \<Rightarrow> (Inl err, s1)
      | (Inr baseSha, s1) \<Rightarrow>
     (case get_base_commit e githubToken fetch baseSha s1 of
        (Inl err, s2) \<Rightarrow> (Inl err, s2)
      | (Inr baseTreeSha, s2) \<Rightarrow>
     (case read_tree_entries e readFile processedFiles of
        Inl err \<Rightarrow> (Inl err, s2)
      | Inr treeEntries \<Rightarrow>
     (case create_tree e githubToken fetch baseTreeSha treeEntries s2 of
        (Inl err, s3) \<Rightarrow> (Inl err, s3)
      | (Inr treeData, s3) \<Rightarrow>
     (case create_commit e githubToken fetch msg (sha treeData) baseSha s3 of
        (Inl err, s4) \<Rightarrow> (Inl err, s4)
      | (Inr newCommitData, s4) \<Rightarrow>
     (case update_reference e githubToken fetch (sha newCommitData) s4 of
        (Inl err, s5) \<Rightarrow> (Inl err, s5)
      | (Inr u, s5) \<Rightarrow>
          (Inr (JObj [(''commit'', commit_summary newCommitData),
                      (''files'', path_list processedFiles),
                      (''tree'', JObj [(''sha'', JStr (sha treeData))])]), s5))))))))"

text \<open>The handler: the \<open>try\<close> block and its \<open>catch\<close>. It returns the result, the world as
  the calls left it, and the exchanges made.\<close>

definition commit_files ::
  "env \<Rightarrow> (string \<Rightarrow> exn + string) \<Rightarrow> 'w fetch \<Rightarrow> string list \<Rightarrow> string \<Rightarrow> 'w \<Rightarrow> tool_result \<times> 'w \<times> exchange list" where
  "commit_files e readFile fetch files msg w =
     (case commit_files_try e readFile fetch files msg (w, []) of
        (Inl errorMessage, s) \<Rightarrow> (error_result errorMessage, s)
      | (Inr simplifiedResult, s) \<Rightarrow> (success_result simplifiedResult, s))"

text \<open>The \<open>try\<close> block of \<open>delete_files\<close>.\<close>

definition delete_files_try ::
  "env \<Rightarrow> 'w fetch \<Rightarrow> string list \<Rightarrow> string \<Rightarrow> 'w net \<Rightarrow> (exn + jvalue) \<times> 'w net" where
  "delete_files_try e fetch paths msg s0 =
     (case GITHUB_TOKEN e of
        None \<Rightarrow> (Inl ''GITHUB_TOKEN environment variable is required'', s0)
      | Some githubToken \<Rightarrow>
     if githubToken = [] then (Inl ''GITHUB_TOKEN environment variable is required'', s0)
     else
     (case delete_processedPaths (cwd e) paths of
        Inl err \<Rightarrow> (Inl err, s0)
      | Inr processedPaths \<Rightarrow>
     (case get_branch_reference e githubToken fetch s0 of
        (Inl err, s1) \<Rightarrow> (Inl err, s1)
      | (Inr baseSha, s1) \<Rightarrow>
     (case get_base_commit e githubToken fetch baseSha s1 of
        (Inl err, s2) \<Rightarrow> (Inl err, s2)
      | (Inr baseTreeSha, s2) \<Rightarrow>
     let treeEntries = map delete_entry processedPaths in
     (case create_tree e githubToken fetch baseTreeSha treeEntries s2 of
        (Inl err, s3) \<Rightarrow> (Inl err, s3)
      | (Inr treeData, s3) \<Rightarrow>
     (case create_commit e githubToken fetch msg (sha treeData) baseSha s3 of
        (Inl err, s4) \<Rightarrow> (Inl err, s4)
      | (Inr newCommitData, s4) \<Rightarrow>
     (case update_reference e githubToken fetch (sha newCommitData) s4 of
        (Inl err, s5) \<Rightarrow> (Inl err, s5)
      | (Inr u, s5) \<Rightarrow>
          (Inr (JObj [(''commit'', commit_summary newCommitData),
                      (''deletedFiles'', path_list processedPaths),
                      (''tree'', JObj [(''sha'', JStr (sha treeData))])]), s5))))))))"

definition delete_files ::
  "env \<Rightarrow> 'w fetch \<Rightarrow> string list \<Rightarrow> string \<Rightarrow> 'w \<Rightarrow> tool_result \<times> 'w \<times> exchange list" where
  "delete_files e fetch paths msg w =
     (case delete_files_try e fetch paths msg (w, []) of
        (Inl errorMessage, s) \<Rightarrow> (error_result errorMessage, s)
      | (Inr simplifiedResult, s) \<Rightarrow> (success_result simplifiedResult, s))"

subsection \<open>Reading a run\<close>

text \<open>What an exchange delivered to the handler: the parsed body of a response that is
  \<open>ok\<close>; nothing when the call rejected, the response is not \<open>ok\<close>, or its body does not
  parse.\<close>

definition delivered :: "exn + response \<Rightarrow> json_body option" where
  "delivered r =
     (case r of
        Inl err \<Rightarrow> None
      | Inr resp \<Rightarrow>
          if ok resp then (case body_json resp of Inl err \<Rightarrow> None | Inr j \<Rightarrow> Some j) else None)"

definition accepted :: "exn + response \<Rightarrow> bool" where
  "accepted r = (case r of Inl err \<Rightarrow> False | Inr resp \<Rightarrow> ok resp)"

text \<open>The strict sequence of the five calls: the request that comes next, given the
  bodies that the calls before it delivered.\<close>

fun expected_request :: "env \<Rightarrow> string \<Rightarrow> string \<Rightarrow> jvalue list \<Rightarrow> json_body list \<Rightarrow> request option" where
  "expected_request e tok msg entries [] = Some (get_ref_request e tok)"
| "expected_request e tok msg entries [j1] = Some (get_commit_request e tok (object_sha j1))"
| "expected_request e tok msg entries [j1, j2] = Some (create_tree_request e tok (tree_sha j2) entries)"
| "expected_request e tok msg entries [j1, j2, j3] =
     Some (create_commit_request e tok msg (sha j3) (object_sha j1))"
| "expected_request e tok msg entries [j1, j2, j3, j4] = Some (update_ref_request e tok (sha j4))"
| "expected_request e tok msg entries (j1 # j2 # j3 # j4 # j5 # js) = None"

text \<open>A record of exchanges is in sequence when every request is the expected one and
  nothing follows an exchange that delivered nothing.\<close>

fun in_sequence :: "env \<Rightarrow> string \<Rightarrow> string \<Rightarrow> jvalue list \<Rightarrow> json_body list \<Rightarrow> exchange list \<Rightarrow> bool" where
  "in_sequence e tok msg entries js [] = True"
| "in_sequence e tok msg entries js (x # rest) =
     (expected_request e tok msg entries js = Some (fst x) \<and>
      (case delivered (snd x) of
         None \<Rightarrow> rest = []
       | Some j \<Rightarrow> in_sequence e tok msg entries (js @ [j]) rest))"

text \<open>A request that moves the branch: a \<open>PATCH\<close> of the branch reference. The hash it
  asks for is the \<open>sha\<close> of its body.\<close>

definition updates_ref :: "env \<Rightarrow> request \<Rightarrow> bool" where
  "updates_ref e q = (http_verb q = PATCH \<and> url q = refUrl e)"

definition requested_sha :: "request \<Rightarrow> string option" where
  "requested_sha q =
     (case body q of
        Some (JObj kvs) \<Rightarrow> (case map_of kvs ''sha'' of Some (JStr s) \<Rightarrow> Some s | _ \<Rightarrow> None)
      | _ \<Rightarrow> None)"



text \<open>The record of a mutation that went through: the five calls, each built from what
  the calls before it delivered, the first four delivering \<open>j1\<close> to \<open>j4\<close> and the last
  accepted.\<close>

definition full_sequence ::
  "env \<Rightarrow> string \<Rightarrow> string \<Rightarrow> jvalue list \<Rightarrow> exchange list \<Rightarrow> json_body \<Rightarrow> json_body \<Rightarrow> json_body \<Rightarrow> json_body \<Rightarrow> bool" where
  "full_sequence e tok msg entries log j1 j2 j3 j4 =
     (\<exists>r1 r2 r3 r4 r5.
        log = [(get_ref_request e tok, r1),
               (get_commit_request e tok (object_sha j1), r2),
               (create_tree_request e tok (tree_sha j2) entries, r3),
               (create_commit_request e tok msg (sha j3) (object_sha j1), r4),
               (update_ref_request e tok (sha j4), r5)] \<and>
        delivered r1 = Some j1 \<and> delivered r2 = Some j2 \<and> delivered r3 = Some j3 \<and>
        delivered r4 = Some j4 \<and> accepted r5)"

text \<open>The result object of a mutation, with the paths under \<open>key\<close>.\<close>

definition simplified_result :: "string \<Rightarrow> string list \<Rightarrow> json_body \<Rightarrow> json_body \<Rightarrow> jvalue" where
  "simplified_result key ps treeData newCommitData =
     JObj [(''commit'', commit_summary newCommitData), (key, path_list ps),
           (''tree'', JObj [(''sha'', JStr (sha treeData))])]"

text \<open>A request that creates a commit, and the parents it names.\<close>

definition parents_of :: "request \<Rightarrow> jvalue list option" where
  "parents_of q =
     (case body q of
        Some (JObj kvs) \<Rightarrow> (case map_of kvs ''parents'' of Some (JArr ps) \<Rightarrow> Some ps | _ \<Rightarrow> None)
      | _ \<Rightarrow> None)"


text \<open>Every string of a JSON value, keys included; a request mentions a string when its
  address, a header or a string of its body contains it.\<close>

primrec json_strings :: "jvalue \<Rightarrow> string list" where
  "json_strings JNull = []"
| "json_strings (JBool b) = []"
| "json_strings (JStr s) = [s]"
| "json_strings (JArr vs) = concat (map json_strings vs)"
| "json_strings (JObj kvs) = concat (map (\<lambda>kv. fst kv # snd kv) (map (map_prod id json_strings) kvs))"

definition mentions :: "request \<Rightarrow> string \<Rightarrow> bool" where
  "mentions q s =
     (sublist s (url q) \<or> list_ex (\<lambda>h. sublist s (fst h) \<or> sublist s (snd h)) (headers q) \<or>
      (case body q of None \<Rightarrow> False | Some v \<Rightarrow> list_ex (sublist s) (json_strings v)))"

text \<open>The message of the error thrown when the update of the reference did not go
  through: the rejection of the call, or the status and the text of the response.\<close>

definition refusal :: "exn + response \<Rightarrow> exn" where
  "refusal r =
     (case r of
        Inl m \<Rightarrow> m
      | Inr resp \<Rightarrow> ''Failed to update reference: '' @ show_nat (status resp) @ '' - '' @ body_text resp)"

text \<open>The path a tree entry names.\<close>

definition entry_path :: "jvalue \<Rightarrow> string option" where
  "entry_path v =
     (case v of
        JObj kvs \<Rightarrow> (case map_of kvs ''path'' of Some (JStr p) \<Rightarrow> Some p | _ \<Rightarrow> None)
      | _ \<Rightarrow> None)"

subsection \<open>Worlds for examples\<close>

text \<open>A world that answers from a script, whatever the request; once the script is used
  up every call rejects.\<close>

definition scripted :: "((exn + response) list) fetch" where
  "scripted w q = (case w of [] \<Rightarrow> (Inl ''request failed'', []) | r # rs \<Rightarrow> (r, rs))"

text \<open>A scripted world with a branch: an accepted update of the reference moves it.\<close>

record branch_world =
  branch_tip :: string
  script :: "(exn + response) list"

definition scripted_branch :: "env \<Rightarrow> branch_world fetch" where
  "scripted_branch e w q =
     (case script w of
        [] \<Rightarrow> (Inl ''request failed'', w)
      | r # rs \<Rightarrow>
          (r, \<lparr>branch_tip =
                 (if updates_ref e q \<and> accepted r
                  then (case requested_sha q of None \<Rightarrow> branch_tip w | Some s \<Rightarrow> s)
                  else branch_tip w),
               script = rs\<rparr>))"

definition respond :: "nat \<Rightarrow> string \<Rightarrow> json_body \<Rightarrow> exn + response" where
  "respond st txt j = Inr \<lparr>status = st, body_text = txt, body_json = Inr j\<rparr>"

definition no_body :: json_body where
  "no_body = \<lparr>object_sha = [], tree_sha = [], sha = [], message = [], author_name = [], author_date = []\<rparr>"

text \<open>The environment of the examples: repository \<open>octo/demo\<close>, branch \<open>main\<close>,
  checked out at \<open>/work/repo\<close>.\<close>

definition example_env :: env where
  "example_env =
     \<lparr>GITHUB_API_URL = ''https://api.github.com'', REPO_OWNER = ''octo'', REPO_NAME = ''demo'',
      BRANCH_NAME = ''main'', env_REPO_DIR = Some ''/work/repo'', GITHUB_TOKEN = Some ''t0k'',
      cwd = ''/work/repo''\<rparr>"

text \<open>The answers of a store where every call succeeds: the branch is at \<open>H0\<close> with tree
  \<open>T0\<close>, the new tree is \<open>T1\<close> and the new commit \<open>H1\<close>.\<close>

definition ref_at_H0 :: json_body where
  "ref_at_H0 = no_body\<lparr>object_sha := ''H0''\<rparr>"

definition commit_H0 :: json_body where
  "commit_H0 = no_body\<lparr>sha := ''H0'', tree_sha := ''T0''\<rparr>"

definition tree_T1 :: json_body where
  "tree_T1 = no_body\<lparr>sha := ''T1''\<rparr>"

definition commit_H1 :: json_body where
  "commit_H1 = no_body\<lparr>sha := ''H1'', tree_sha := ''T1'', message := ''init'', author_name := ''octo'',
                        author_date := ''2025-01-01T00:00:00Z''\<rparr>"

definition ref_at_H1 :: json_body where
  "ref_at_H1 = no_body\<lparr>object_sha := ''H1''\<rparr>"

definition happy_script :: "(exn + response) list" where
  "happy_script =
     [respond 200 [] ref_at_H0, respond 200 [] commit_H0, respond 201 [] tree_T1,
      respond 201 [] commit_H1, respond 200 [] ref_at_H1]"

text \<open>The same answers from a store whose branch is at another commit, \<open>H9\<close>.\<close>

definition other_base_script :: "(exn + response) list" where
  "other_base_script = respond 200 [] (no_body\<lparr>object_sha := ''H9''\<rparr>) # drop 1 happy_script"

text \<open>The same answers, but the store refuses to move the branch.\<close>

definition conflict_script :: "(exn + response) list" where
  "conflict_script =
     take 4 happy_script
     @ [Inr \<lparr>status = 422, body_text = ''Update is not a fast forward'', body_json = Inl ''no body''\<rparr>]"

text \<open>A file system where no file exists: every read rejects, with the message of Node.\<close>

definition missing_file :: "string \<Rightarrow> exn + string" where
  "missing_file p = Inl (''ENOENT: no such file or directory, open '' @ [CHR 0x27] @ p @ [CHR 0x27])"

text \<open>A file system with a password file on the host, a file of the same name inside the
  repository, and \<open>a.txt\<close> in the repository.\<close>

definition host_files :: "string \<Rightarrow> exn + string" where
  "host_files p =
     (if p = ''/etc/passwd'' then Inr ''root:x:0:0:root:/root:/bin/sh''
      else if p = ''/work/repo/etc/passwd'' then Inr ''a file of the repository''
      else if p = ''/work/repo/a.txt'' then Inr ''alpha''
      else missing_file p)"

text \<open>A response that is not \<open>ok\<close>: a status and a text.\<close>

definition refuse :: "nat \<Rightarrow> string \<Rightarrow> exn + response" where
  "refuse st txt = Inr \<lparr>status = st, body_text = txt, body_json = Inl ''Unexpected token''\<rparr>"

section \<open>Properties\<close>

subsection \<open>One step, one exchange\<close>

lemma startsWith_prefix: "startsWith s p = prefix p s"
  by (auto simp: startsWith_def prefix_def) (metis append_take_drop_id)

lemma get_branch_reference_Inr:
  "get_branch_reference e tok fetch s = (Inr x, s') \<Longrightarrow>
   \<exists>r j. fetch (fst s) (get_ref_request e tok) = (r, fst s') \<and>
         snd s' = snd s @ [(get_ref_request e tok, r)] \<and> delivered r = Some j \<and> x = object_sha j"
  by (auto simp: get_branch_reference_def do_fetch_def delivered_def
      split: prod.splits sum.splits if_splits)

lemma get_branch_reference_Inl:
  "get_branch_reference e tok fetch s = (Inl err, s') \<Longrightarrow>
   \<exists>r. fetch (fst s) (get_ref_request e tok) = (r, fst s') \<and>
       snd s' = snd s @ [(get_ref_request e tok, r)] \<and> delivered r = None"
  by (auto simp: get_branch_reference_def do_fetch_def delivered_def
      split: prod.splits sum.splits if_splits)

lemma get_base_commit_Inr:
  "get_base_commit e tok fetch b s = (Inr x, s') \<Longrightarrow>
   \<exists>r j. fetch (fst s) (get_commit_request e tok b) = (r, fst s') \<and>
         snd s' = snd s @ [(get_commit_request e tok b, r)] \<and> delivered r = Some j \<and> x = tree_sha j"
  by (auto simp: get_base_commit_def do_fetch_def delivered_def
      split: prod.splits sum.splits if_splits)

lemma get_base_commit_Inl:
  "get_base_commit e tok fetch b s = (Inl err, s') \<Longrightarrow>
   \<exists>r. fetch (fst s) (get_commit_request e tok b) = (r, fst s') \<and>
       snd s' = snd s @ [(get_commit_request e tok b, r)] \<and> delivered r = None"
  by (auto simp: get_base_commit_def do_fetch_def delivered_def
      split: prod.splits sum.splits if_splits)

lemma create_tree_Inr:
  "create_tree e tok fetch b es s = (Inr x, s') \<Longrightarrow>
   \<exists>r. fetch (fst s) (create_tree_request e tok b es) = (r, fst s') \<and>
       snd s' = snd s @ [(create_tree_request e tok b es, r)] \<and> delivered r = Some x"
  by (auto simp: create_tree_def do_fetch_def delivered_def
      split: prod.splits sum.splits if_splits)

lemma create_tree_Inl:
  "create_tree e tok fetch b es s = (Inl err, s') \<Longrightarrow>
   \<exists>r. fetch (fst s) (create_tree_request e tok b es) = (r, fst s') \<and>
       snd s' = snd s @ [(create_tree_request e tok b es, r)] \<and> delivered r = None"
  by (auto simp: create_tree_def do_fetch_def delivered_def
      split: prod.splits sum.splits if_splits)

lemma create_commit_Inr:
  "create_commit e tok fetch m t b s = (Inr x, s') \<Longrightarrow>
   \<exists>r. fetch (fst s) (create_commit_request e tok m t b) = (r, fst s') \<and>
       snd s' = snd s @ [(create_commit_request e tok m t b, r)] \<and> delivered r = Some x"
  by (auto simp: create_commit_def do_fetch_def delivered_def
      split: prod.splits sum.splits if_splits)

lemma create_commit_Inl:
  "create_commit e tok fetch m t b s = (Inl err, s') \<Longrightarrow>
   \<exists>r. fetch (fst s) (create_commit_request e tok m t b) = (r, fst s') \<and>
       snd s' = snd s @ [(create_commit_request e tok m t b, r)] \<and> delivered r = None"
  by (auto simp: create_commit_def do_fetch_def delivered_def
      split: prod.splits sum.splits if_splits)

lemma update_reference_Inr:
  "update_reference e tok fetch n s = (Inr x, s') \<Longrightarrow>
   \<exists>r. fetch (fst s) (update_ref_request e tok n) = (r, fst s') \<and>
       snd s' = snd s @ [(update_ref_request e tok n, r)] \<and> accepted r"
  by (auto simp: update_reference_def do_fetch_def accepted_def
      split: prod.splits sum.splits if_splits)

lemma update_reference_Inl:
  "update_reference e tok fetch n s = (Inl err, s') \<Longrightarrow>
   \<exists>r. fetch (fst s) (update_ref_request e tok n) = (r, fst s') \<and>
       snd s' = snd s @ [(update_ref_request e tok n, r)] \<and> \<not> accepted r"
  by (auto simp: update_reference_def do_fetch_def accepted_def
      split: prod.splits sum.splits if_splits)

lemmas step_dests =
  get_branch_reference_Inr get_branch_reference_Inl get_base_commit_Inr get_base_commit_Inl
  create_tree_Inr create_tree_Inl create_commit_Inr create_commit_Inl
  update_reference_Inr update_reference_Inl

lemma delivered_SomeD:
  "delivered r = Some j \<Longrightarrow> \<exists>resp. r = Inr resp \<and> ok resp \<and> body_json resp = Inr j"
  by (auto simp: delivered_def split: sum.splits if_splits)

lemma acceptedD: "accepted r \<Longrightarrow> \<exists>resp. r = Inr resp \<and> ok resp"
  by (auto simp: accepted_def split: sum.splits)

lemma get_branch_reference_delivered:
  "fetch (fst s) (get_ref_request e tok) = (r, w') \<Longrightarrow> delivered r = Some j \<Longrightarrow>
   get_branch_reference e tok fetch s = (Inr (object_sha j), (w', snd s @ [(get_ref_request e tok, r)]))"
  by (auto simp: get_branch_reference_def do_fetch_def dest!: delivered_SomeD)

lemma get_base_commit_delivered:
  "fetch (fst s) (get_commit_request e tok b) = (r, w') \<Longrightarrow> delivered r = Some j \<Longrightarrow>
   get_base_commit e tok fetch b s = (Inr (tree_sha j), (w', snd s @ [(get_commit_request e tok b, r)]))"
  by (auto simp: get_base_commit_def do_fetch_def dest!: delivered_SomeD)

lemma create_tree_delivered:
  "fetch (fst s) (create_tree_request e tok b es) = (r, w') \<Longrightarrow> delivered r = Some j \<Longrightarrow>
   create_tree e tok fetch b es s = (Inr j, (w', snd s @ [(create_tree_request e tok b es, r)]))"
  by (auto simp: create_tree_def do_fetch_def dest!: delivered_SomeD)

lemma create_commit_delivered:
  "fetch (fst s) (create_commit_request e tok m t b) = (r, w') \<Longrightarrow> delivered r = Some j \<Longrightarrow>
   create_commit e tok fetch m t b s = (Inr j, (w', snd s @ [(create_commit_request e tok m t b, r)]))"
  by (auto simp: create_commit_def do_fetch_def dest!: delivered_SomeD)

lemma update_reference_accepted:
  "fetch (fst s) (update_ref_request e tok n) = (r, w') \<Longrightarrow> accepted r \<Longrightarrow>
   update_reference e tok fetch n s = (Inr (), (w', snd s @ [(update_ref_request e tok n, r)]))"
  by (auto simp: update_reference_def do_fetch_def dest!: acceptedD)

lemma update_reference_Inl_refusal:
  "update_reference e tok fetch n s = (Inl err, s') \<Longrightarrow>
   \<exists>r. fetch (fst s) (update_ref_request e tok n) = (r, fst s') \<and>
       snd s' = snd s @ [(update_ref_request e tok n, r)] \<and> \<not> accepted r \<and> err = refusal r"
  by (auto simp: update_reference_def do_fetch_def accepted_def refusal_def
      split: prod.splits sum.splits if_splits)

lemmas step_dests_refusal =
  get_branch_reference_Inr get_branch_reference_Inl get_base_commit_Inr get_base_commit_Inl
  create_tree_Inr create_tree_Inl create_commit_Inr create_commit_Inl
  update_reference_Inr update_reference_Inl_refusal

lemma only_update_updates_ref [simp]:
  "\<not> updates_ref e (get_ref_request e' tok)"
  "\<not> updates_ref e (get_commit_request e' tok b)"
  "\<not> updates_ref e (create_tree_request e' tok t es)"
  "\<not> updates_ref e (create_commit_request e' tok m t b)"
  "updates_ref e (update_ref_request e tok n)"
  by (simp_all add: updates_ref_def get_ref_request_def get_commit_request_def
      create_tree_request_def create_commit_request_def update_ref_request_def)

lemma requested_sha_update_ref [simp]: "requested_sha (update_ref_request e tok n) = Some n"
  by (simp add: requested_sha_def update_ref_request_def)

subsection \<open>The runs of the two try blocks\<close>



lemma commit_files_try_no_token:
  "GITHUB_TOKEN e = None \<or> GITHUB_TOKEN e = Some [] \<Longrightarrow>
   commit_files_try e readFile fetch files msg s =
     (Inl ''GITHUB_TOKEN environment variable is required'', s)"
  by (auto simp: commit_files_try_def)

lemma commit_files_try_in_sequence:
  "commit_files_try e readFile fetch files msg (w, []) = (out, w', log) \<Longrightarrow>
   GITHUB_TOKEN e = Some tok \<Longrightarrow>
   in_sequence e tok msg
     (case read_tree_entries e readFile (commit_processedFiles files) of
        Inl err \<Rightarrow> [] | Inr es \<Rightarrow> es) [] log"
  unfolding commit_files_try_def Let_def
  by (auto split: prod.splits sum.splits if_splits option.splits dest!: step_dests)



lemma delete_files_try_no_token:
  "GITHUB_TOKEN e = None \<or> GITHUB_TOKEN e = Some [] \<Longrightarrow>
   delete_files_try e fetch paths msg s =
     (Inl ''GITHUB_TOKEN environment variable is required'', s)"
  by (auto simp: delete_files_try_def)

lemma delete_files_try_in_sequence:
  "delete_files_try e fetch paths msg (w, []) = (out, w', log) \<Longrightarrow>
   GITHUB_TOKEN e = Some tok \<Longrightarrow>
   in_sequence e tok msg
     (case delete_processedPaths (cwd e) paths of
        Inl err \<Rightarrow> [] | Inr ps \<Rightarrow> map delete_entry ps) [] log"
  unfolding delete_files_try_def Let_def
  by (auto split: prod.splits sum.splits if_splits option.splits dest!: step_dests)

lemma commit_files_try_fifth:
  "commit_files_try e readFile fetch files msg (w, []) = (out, w', log) \<Longrightarrow>
   length log = 5 \<Longrightarrow> \<not> accepted (snd (log ! 4)) \<Longrightarrow> out = Inl (refusal (snd (log ! 4)))"
  unfolding commit_files_try_def Let_def
  by (auto split: prod.splits sum.splits if_splits option.splits dest!: step_dests_refusal)

lemma delete_files_try_fifth:
  "delete_files_try e fetch paths msg (w, []) = (out, w', log) \<Longrightarrow>
   length log = 5 \<Longrightarrow> \<not> accepted (snd (log ! 4)) \<Longrightarrow> out = Inl (refusal (snd (log ! 4)))"
  unfolding delete_files_try_def Let_def
  by (auto split: prod.splits sum.splits if_splits option.splits dest!: step_dests_refusal)

subsection \<open>Records in sequence, and the branch of a store\<close>

lemma expected_request_updates_ref:
  "expected_request e tok msg entries js = Some q \<Longrightarrow> updates_ref e q \<Longrightarrow> length js = 4"
  by (cases "(e, tok, msg, entries, js)" rule: expected_request.cases) auto

lemma in_sequence_nth_the:
  "in_sequence e tok msg entries js log \<Longrightarrow> i < length log \<Longrightarrow>
   (\<forall>k<i. delivered (snd (log ! k)) \<noteq> None) \<and>
   expected_request e tok msg entries (js @ map (\<lambda>x. the (delivered (snd x))) (take i log))
     = Some (fst (log ! i))"
proof (induction log arbitrary: js i)
  case Nil
  then show ?case by simp
next
  case (Cons x rest)
  show ?case
  proof (cases i)
    case 0
    with Cons.prems show ?thesis by simp
  next
    case (Suc n)
    with Cons.prems have n: "n < length rest" by simp
    with Cons.prems obtain j where j: "delivered (snd x) = Some j"
      and rest: "in_sequence e tok msg entries (js @ [j]) rest"
      by (cases "delivered (snd x)") auto
    from Cons.IH [OF rest n] have
      before: "\<forall>k<n. delivered (snd (rest ! k)) \<noteq> None" and
      ex: "expected_request e tok msg entries ((js @ [j]) @ map (\<lambda>x. the (delivered (snd x))) (take n rest))
             = Some (fst (rest ! n))"
      by blast+
    have "\<forall>k<i. delivered (snd ((x # rest) ! k)) \<noteq> None"
      using before j Suc by (auto simp: nth_Cons split: nat.splits)
    moreover have "expected_request e tok msg entries (js @ map (\<lambda>x. the (delivered (snd x))) (take i (x # rest)))
         = Some (fst ((x # rest) ! i))"
      using ex j Suc by simp
    ultimately show ?thesis by blast
  qed
qed

lemma in_sequence_update_last:
  assumes "in_sequence e tok msg entries [] log" and "i < length log"
    and "updates_ref e (fst (log ! i))"
  shows "i = 4 \<and> (\<forall>k<4. delivered (snd (log ! k)) \<noteq> None)"
proof -
  let ?ds = "map (\<lambda>x. the (delivered (snd x))) (take i log)"
  from in_sequence_nth_the [OF assms(1,2)] have
    before: "\<forall>k<i. delivered (snd (log ! k)) \<noteq> None" and
    ds: "expected_request e tok msg entries ([] @ ?ds) = Some (fst (log ! i))"
    by blast+
  from expected_request_updates_ref [OF ds assms(3)] assms(2) have "i = 4" by simp
  with before show ?thesis by simp
qed



lemma full_sequence_in_sequence:
  "full_sequence e tok msg entries log j1 j2 j3 j4 \<Longrightarrow> in_sequence e tok msg entries [] log"
  by (auto simp: full_sequence_def split: option.splits)




lemma read_tree_entries_paths:
  "read_tree_entries e readFile ps = Inr entries \<Longrightarrow> map entry_path entries = map Some ps"
  unfolding read_tree_entries_def
  by (induction ps arbitrary: entries)
     (auto simp: entry_path_def write_entry_def split: sum.splits)

lemma delete_entries_paths: "map entry_path (map delete_entry ps) = map Some ps"
  by (induction ps) (auto simp: entry_path_def delete_entry_def)

lemma isError_results [simp]: "isError (error_result m)" "\<not> isError (success_result v)"
  by (simp_all add: error_result_def success_result_def)



lemmas run_defs =
  commit_files_def commit_files_try_def delete_files_def delete_files_try_def
  get_branch_reference_def get_base_commit_def create_tree_def create_commit_def
  update_reference_def do_fetch_def read_tree_entries_def commit_processedFiles_def
  delete_processedPaths_def delete_processedPath_def startsWith_def slice_from_def


lemma expected_request_None:
  "5 \<le> length js \<Longrightarrow> expected_request e tok msg entries js = None"
  by (cases "(e, tok, msg, entries, js)" rule: expected_request.cases) auto

lemma in_sequence_length:
  assumes "in_sequence e tok msg entries [] log" shows "length log \<le> 5"
proof (rule ccontr)
  assume "\<not> length log \<le> 5"
  then have "5 < length log" by simp
  from in_sequence_nth_the [OF assms this] have
    "expected_request e tok msg entries ([] @ map (\<lambda>x. the (delivered (snd x))) (take 5 log)) = Some (fst (log ! 5))"
    by blast
  moreover have "5 \<le> length (map (\<lambda>x. the (delivered (snd x))) (take 5 log))"
    using \<open>5 < length log\<close> by simp
  ultimately show False using expected_request_None by fastforce
qed


lemma commit_files_in_sequence:
  "\<exists>tok entries. in_sequence e tok msg entries [] (snd (snd (commit_files e readFile fetch files msg w)))"
proof -
  obtain out w' log where tr: "commit_files_try e readFile fetch files msg (w, []) = (out, w', log)"
    by (metis prod_cases3)
  then have log: "snd (snd (commit_files e readFile fetch files msg w)) = log"
    by (simp add: commit_files_def split: sum.splits)
  have "\<exists>tok entries. in_sequence e tok msg entries [] log"
  proof (cases "GITHUB_TOKEN e")
    case None
    with tr commit_files_try_no_token [of e readFile fetch files msg "(w, [])"]
    have "log = []" by simp
    then show ?thesis by simp
  next
    case (Some t)
    from commit_files_try_in_sequence [OF tr Some] show ?thesis by blast
  qed
  with log show ?thesis by simp
qed

lemma delete_files_in_sequence:
  "\<exists>tok entries. in_sequence e tok msg entries [] (snd (snd (delete_files e fetch paths msg w)))"
proof -
  obtain out w' log where tr: "delete_files_try e fetch paths msg (w, []) = (out, w', log)"
    by (metis prod_cases3)
  then have log: "snd (snd (delete_files e fetch paths msg w)) = log"
    by (simp add: delete_files_def split: sum.splits)
  have "\<exists>tok entries. in_sequence e tok msg entries [] log"
  proof (cases "GITHUB_TOKEN e")
    case None
    with tr delete_files_try_no_token [of e fetch paths msg "(w, [])"]
    have "log = []" by simp
    then show ?thesis by simp
  next
    case (Some t)
    from delete_files_try_in_sequence [OF tr Some] show ?thesis by blast
  qed
  with log show ?thesis by simp
qed

lemma in_sequence_fifth:
  assumes seq: "in_sequence e tok msg entries [] log" and i: "i < length log"
    and upd: "updates_ref e (fst (log ! i))"
  shows "i = 4 \<and> length log = 5 \<and>
     (\<exists>j1 j3 j4. delivered (snd (log ! 0)) = Some j1 \<and> delivered (snd (log ! 2)) = Some j3 \<and>
        delivered (snd (log ! 3)) = Some j4 \<and>
        fst (log ! 3) = create_commit_request e tok msg (sha j3) (object_sha j1) \<and>
        fst (log ! 4) = update_ref_request e tok (sha j4))"
proof -
  from in_sequence_update_last [OF seq i upd] have i4: "i = 4"
    and before: "\<forall>k<4. delivered (snd (log ! k)) \<noteq> None" by simp_all
  from in_sequence_length [OF seq] i i4 have len: "length log = 5" by simp
  from before have "delivered (snd (log ! 0)) \<noteq> None" "delivered (snd (log ! 1)) \<noteq> None"
    "delivered (snd (log ! 2)) \<noteq> None" "delivered (snd (log ! 3)) \<noteq> None"
    by simp_all
  then obtain j1 j2 j3 j4 where d: "delivered (snd (log ! 0)) = Some j1"
    "delivered (snd (log ! 1)) = Some j2" "delivered (snd (log ! 2)) = Some j3"
    "delivered (snd (log ! 3)) = Some j4"
    by auto
  from len obtain x0 x1 x2 x3 x4 where log: "log = [x0, x1, x2, x3, x4]"
    by (auto simp: length_Suc_conv eval_nat_numeral)
  from in_sequence_nth_the [OF seq, of 3] len d log
  have "fst (log ! 3) = create_commit_request e tok msg (sha j3) (object_sha j1)"
    by simp
  moreover from in_sequence_nth_the [OF seq, of 4] len d log
  have "fst (log ! 4) = update_ref_request e tok (sha j4)"
    by simp
  ultimately have "\<exists>j1 j3 j4. delivered (snd (log ! 0)) = Some j1 \<and> delivered (snd (log ! 2)) = Some j3 \<and>
        delivered (snd (log ! 3)) = Some j4 \<and>
        fst (log ! 3) = create_commit_request e tok msg (sha j3) (object_sha j1) \<and>
        fst (log ! 4) = update_ref_request e tok (sha j4)"
    using d by blast
  with i4 len show ?thesis by simp
qed

lemma commit_files_all_delivered:
  assumes tok: "GITHUB_TOKEN e = Some tok" "tok \<noteq> []"
    and x1: "fetch w0 (get_ref_request e tok) = (r1, w1)" "delivered r1 = Some j1"
    and x2: "fetch w1 (get_commit_request e tok (object_sha j1)) = (r2, w2)" "delivered r2 = Some j2"
    and rd: "read_tree_entries e readFile (commit_processedFiles files) = Inr entries"
    and x3: "fetch w2 (create_tree_request e tok (tree_sha j2) entries) = (r3, w3)" "delivered r3 = Some j3"
    and x4: "fetch w3 (create_commit_request e tok msg (sha j3) (object_sha j1)) = (r4, w4)"
            "delivered r4 = Some j4"
    and x5: "fetch w4 (update_ref_request e tok (sha j4)) = (r5, w5)" "accepted r5"
  shows "commit_files e readFile fetch files msg w0 =
       (success_result (simplified_result ''files'' (commit_processedFiles files) j3 j4), w5,
        [(get_ref_request e tok, r1),
         (get_commit_request e tok (object_sha j1), r2),
         (create_tree_request e tok (tree_sha j2) entries, r3),
         (create_commit_request e tok msg (sha j3) (object_sha j1), r4),
         (update_ref_request e tok (sha j4), r5)])"
proof -
  let ?l1 = "[(get_ref_request e tok, r1)]"
  let ?l2 = "?l1 @ [(get_commit_request e tok (object_sha j1), r2)]"
  let ?l3 = "?l2 @ [(create_tree_request e tok (tree_sha j2) entries, r3)]"
  let ?l4 = "?l3 @ [(create_commit_request e tok msg (sha j3) (object_sha j1), r4)]"
  let ?l5 = "?l4 @ [(update_ref_request e tok (sha j4), r5)]"
  have s1: "get_branch_reference e tok fetch (w0, []) = (Inr (object_sha j1), (w1, ?l1))"
    using get_branch_reference_delivered [of fetch "(w0, [])" e tok r1 w1 j1] x1 by simp
  have s2: "get_base_commit e tok fetch (object_sha j1) (w1, ?l1) = (Inr (tree_sha j2), (w2, ?l2))"
    using get_base_commit_delivered [of fetch "(w1, ?l1)" e tok "object_sha j1" r2 w2 j2] x2 by simp
  have s3: "create_tree e tok fetch (tree_sha j2) entries (w2, ?l2) = (Inr j3, (w3, ?l3))"
    using create_tree_delivered [of fetch "(w2, ?l2)" e tok "tree_sha j2" entries r3 w3 j3] x3 by simp
  have s4: "create_commit e tok fetch msg (sha j3) (object_sha j1) (w3, ?l3) = (Inr j4, (w4, ?l4))"
    using create_commit_delivered [of fetch "(w3, ?l3)" e tok msg "sha j3" "object_sha j1" r4 w4 j4] x4
    by simp
  have s5: "update_reference e tok fetch (sha j4) (w4, ?l4) = (Inr (), (w5, ?l5))"
    using update_reference_accepted [of fetch "(w4, ?l4)" e tok "sha j4" r5 w5] x5 by simp
  show ?thesis
    unfolding commit_files_def commit_files_try_def
    using s1 s2 s3 s4 s5 by (simp add: tok rd simplified_result_def)
qed

lemma delete_files_all_delivered:
  assumes tok: "GITHUB_TOKEN e = Some tok" "tok \<noteq> []"
    and pp: "delete_processedPaths (cwd e) paths = Inr ps"
    and x1: "fetch w0 (get_ref_request e tok) = (r1, w1)" "delivered r1 = Some j1"
    and x2: "fetch w1 (get_commit_request e tok (object_sha j1)) = (r2, w2)" "delivered r2 = Some j2"
    and x3: "fetch w2 (create_tree_request e tok (tree_sha j2) (map delete_entry ps)) = (r3, w3)"
            "delivered r3 = Some j3"
    and x4: "fetch w3 (create_commit_request e tok msg (sha j3) (object_sha j1)) = (r4, w4)"
            "delivered r4 = Some j4"
    and x5: "fetch w4 (update_ref_request e tok (sha j4)) = (r5, w5)" "accepted r5"
  shows "delete_files e fetch paths msg w0 =
       (success_result (simplified_result ''deletedFiles'' ps j3 j4), w5,
        [(get_ref_request e tok, r1),
         (get_commit_request e tok (object_sha j1), r2),
         (create_tree_request e tok (tree_sha j2) (map delete_entry ps), r3),
         (create_commit_request e tok msg (sha j3) (object_sha j1), r4),
         (update_ref_request e tok (sha j4), r5)])"
proof -
  let ?l1 = "[(get_ref_request e tok, r1)]"
  let ?l2 = "?l1 @ [(get_commit_request e tok (object_sha j1), r2)]"
  let ?l3 = "?l2 @ [(create_tree_request e tok (tree_sha j2) (map delete_entry ps), r3)]"
  let ?l4 = "?l3 @ [(create_commit_request e tok msg (sha j3) (object_sha j1), r4)]"
  let ?l5 = "?l4 @ [(update_ref_request e tok (sha j4), r5)]"
  have s1: "get_branch_reference e tok fetch (w0, []) = (Inr (object_sha j1), (w1, ?l1))"
    using get_branch_reference_delivered [of fetch "(w0, [])" e tok r1 w1 j1] x1 by simp
  have s2: "get_base_commit e tok fetch (object_sha j1) (w1, ?l1) = (Inr (tree_sha j2), (w2, ?l2))"
    using get_base_commit_delivered [of fetch "(w1, ?l1)" e tok "object_sha j1" r2 w2 j2] x2 by simp
  have s3: "create_tree e tok fetch (tree_sha j2) (map delete_entry ps) (w2, ?l2) = (Inr j3, (w3, ?l3))"
    using create_tree_delivered [of fetch "(w2, ?l2)" e tok "tree_sha j2" "map delete_entry ps" r3 w3 j3] x3
    by simp
  have s4: "create_commit e tok fetch msg (sha j3) (object_sha j1) (w3, ?l3) = (Inr j4, (w4, ?l4))"
    using create_commit_delivered [of fetch "(w3, ?l3)" e tok msg "sha j3" "object_sha j1" r4 w4 j4] x4
    by simp
  have s5: "update_reference e tok fetch (sha j4) (w4, ?l4) = (Inr (), (w5, ?l5))"
    using update_reference_accepted [of fetch "(w4, ?l4)" e tok "sha j4" r5 w5] x5 by simp
  show ?thesis
    unfolding delete_files_def delete_files_try_def
    using s1 s2 s3 s4 s5 by (simp add: tok pp simplified_result_def)
qed

lemma commit_files_first_call:
  assumes tok: "GITHUB_TOKEN e = Some tok" "tok \<noteq> []"
  shows "\<exists>r rest. snd (snd (commit_files e readFile fetch files msg w)) = (get_ref_request e tok, r) # rest"
proof -
  obtain out w' log where tr: "commit_files_try e readFile fetch files msg (w, []) = (out, w', log)"
    by (metis prod_cases3)
  then have log: "snd (snd (commit_files e readFile fetch files msg w)) = log"
    by (simp add: commit_files_def split: sum.splits)
  from tr tok have "\<exists>r rest. log = (get_ref_request e tok, r) # rest"
    unfolding commit_files_try_def Let_def
    by (auto split: prod.splits sum.splits if_splits dest!: step_dests)
  with log show ?thesis by simp
qed

lemma delete_files_first_call:
  assumes tok: "GITHUB_TOKEN e = Some tok" "tok \<noteq> []"
    and pp: "delete_processedPaths (cwd e) paths = Inr ps"
  shows "\<exists>r rest. snd (snd (delete_files e fetch paths msg w)) = (get_ref_request e tok, r) # rest"
proof -
  obtain out w' log where tr: "delete_files_try e fetch paths msg (w, []) = (out, w', log)"
    by (metis prod_cases3)
  then have log: "snd (snd (delete_files e fetch paths msg w)) = log"
    by (simp add: delete_files_def split: sum.splits)
  from tr tok pp have "\<exists>r rest. log = (get_ref_request e tok, r) # rest"
    unfolding delete_files_try_def Let_def
    by (auto split: prod.splits sum.splits if_splits dest!: step_dests)
  with log show ?thesis by simp
qed

lemma startsWith_slash: "startsWith p ''/'' \<longleftrightarrow> p \<noteq> [] \<and> hd p = CHR ''/''"
  by (cases p) (auto simp: startsWith_def)

lemma delete_processedPaths_map:
  "delete_processedPaths c paths = Inr ps \<Longrightarrow>
   ps = map (\<lambda>p. if startsWith p ''/'' then slice_from p (length c + 1) else p) paths"
  unfolding delete_processedPaths_def
  by (induction paths arbitrary: ps)
     (auto simp: delete_processedPath_def split: sum.splits if_splits)





lemma distinct_mapD: "\<not> distinct xs \<Longrightarrow> \<not> distinct (map f xs)"
  using distinct_map by blast

lemma read_tree_entries_all:
  "\<forall>f\<in>set files. readFile (fullPath e (g f)) = Inr (texts f) \<Longrightarrow>
   read_tree_entries e readFile (map g files) = Inr (map (\<lambda>f. write_entry (g f) (texts f)) files)"
  unfolding read_tree_entries_def by (induction files) auto

lemma commit_files_third_call:
  assumes tok: "GITHUB_TOKEN e = Some tok" "tok \<noteq> []"
    and x1: "fetch w0 (get_ref_request e tok) = (r1, w1)" "delivered r1 = Some j1"
    and x2: "fetch w1 (get_commit_request e tok (object_sha j1)) = (r2, w2)" "delivered r2 = Some j2"
    and rd: "read_tree_entries e readFile (commit_processedFiles files) = Inr entries"
  shows "\<exists>r3 rest. snd (snd (commit_files e readFile fetch files msg w0)) =
           (get_ref_request e tok, r1) # (get_commit_request e tok (object_sha j1), r2)
           # (create_tree_request e tok (tree_sha j2) entries, r3) # rest"
proof -
  let ?l1 = "[(get_ref_request e tok, r1)]"
  let ?l2 = "?l1 @ [(get_commit_request e tok (object_sha j1), r2)]"
  have s1: "get_branch_reference e tok fetch (w0, []) = (Inr (object_sha j1), (w1, ?l1))"
    using get_branch_reference_delivered [of fetch "(w0, [])" e tok r1 w1 j1] x1 by simp
  have s2: "get_base_commit e tok fetch (object_sha j1) (w1, ?l1) = (Inr (tree_sha j2), (w2, ?l2))"
    using get_base_commit_delivered [of fetch "(w1, ?l1)" e tok "object_sha j1" r2 w2 j2] x2 by simp
  obtain out w' log where tr: "commit_files_try e readFile fetch files msg (w0, []) = (out, w', log)"
    by (metis prod_cases3)
  then have log: "snd (snd (commit_files e readFile fetch files msg w0)) = log"
    by (simp add: commit_files_def split: sum.splits)
  from tr have "\<exists>r3 rest. log =
           (get_ref_request e tok, r1) # (get_commit_request e tok (object_sha j1), r2)
           # (create_tree_request e tok (tree_sha j2) entries, r3) # rest"
    unfolding commit_files_try_def Let_def
    by (auto simp: tok s1 s2 rd split: prod.splits sum.splits dest!: step_dests)
  with log show ?thesis by simp
qed

lemma slice_from_one: "slice_from f (Suc 0) = tl f"
  by (cases f) (simp_all add: slice_from_def)

lemma show_nat_examples: "show_nat 422 = ''422''" "show_nat 404 = ''404''"
  by code_simp+

lemma path_join_examples:
  "path_join ''/work/repo'' ''gone.txt'' = ''/work/repo/gone.txt''"
  "path_join ''/work/repo'' ''etc/passwd'' = ''/work/repo/etc/passwd''"
  "path_join ''/work/repo'' ''/etc/passwd'' = ''/work/repo/etc/passwd''"
  "path_join ''/work/repo'' ''../../etc/passwd'' = ''/etc/passwd''"
  "path_join ''/work/repo'' ''a.txt'' = ''/work/repo/a.txt''"
  by code_simp+

subsection \<open>C1: a mutation is all or nothing\<close>




subsection \<open>C7: committing two files where every call succeeds\<close>




subsection \<open>C10: every failure comes back in the result\<close>




subsection \<open>C2: what the update of the reference carries\<close>

text \<open>
  Claim C2 says that the request of the Ref Updater carries the commit hash read in
  step 1 as the expected current hash. It does not. In the run that commits two files
  on a branch at \<open>H0\<close>, the first call delivers \<open>H0\<close> and the fifth request is a \<open>PATCH\<close>
  of the branch reference whose body is the new hash \<open>H1\<close> and \<open>force\<close> false; \<open>H0\<close> is
  nowhere in its address, its headers or its body. The same run on a branch read at
  \<open>H9\<close> sends the very same fifth request.
\<close>

theorem update_ref_request_lacks_expected_hash:
  "length (snd (snd (commit_files example_env (\<lambda>p. Inr ''alpha'') scripted
                       [''a.txt'', ''b/c.txt''] ''init'' happy_script))) = 5 \<and>
   delivered (snd (snd (snd (commit_files example_env (\<lambda>p. Inr ''alpha'') scripted
                       [''a.txt'', ''b/c.txt''] ''init'' happy_script)) ! 0)) = Some ref_at_H0 \<and>
   object_sha ref_at_H0 = ''H0'' \<and>
   fst (snd (snd (commit_files example_env (\<lambda>p. Inr ''alpha'') scripted
                       [''a.txt'', ''b/c.txt''] ''init'' happy_script)) ! 4) =
     \<lparr>http_verb = PATCH, url = ''https://api.github.com/repos/octo/demo/git/refs/heads/main'',
      headers = [(''Accept'', ''application/vnd.github+json''), (''Authorization'', ''Bearer t0k''),
                 (''X-GitHub-Api-Version'', ''2022-11-28''), (''Content-Type'', ''application/json'')],
      body = Some (JObj [(''sha'', JStr ''H1''), (''force'', JBool False)])\<rparr> \<and>
   \<not> mentions (fst (snd (snd (commit_files example_env (\<lambda>p. Inr ''alpha'') scripted
                       [''a.txt'', ''b/c.txt''] ''init'' happy_script)) ! 4)) ''H0'' \<and>
   fst (snd (snd (commit_files example_env (\<lambda>p. Inr ''alpha'') scripted
                       [''a.txt'', ''b/c.txt''] ''init'' other_base_script)) ! 1)
     = get_commit_request example_env ''t0k'' ''H9'' \<and>
   fst (snd (snd (commit_files example_env (\<lambda>p. Inr ''alpha'') scripted
                       [''a.txt'', ''b/c.txt''] ''init'' other_base_script)) ! 4)
     = fst (snd (snd (commit_files example_env (\<lambda>p. Inr ''alpha'') scripted
                       [''a.txt'', ''b/c.txt''] ''init'' happy_script)) ! 4)"
proof -
  have run: "snd (snd (commit_files example_env (\<lambda>p. Inr ''alpha'') scripted
                       [''a.txt'', ''b/c.txt''] ''init'' happy_script)) =
      [(get_ref_request example_env ''t0k'', respond 200 [] ref_at_H0),
       (get_commit_request example_env ''t0k'' ''H0'', respond 200 [] commit_H0),
       (create_tree_request example_env ''t0k'' ''T0''
          [write_entry ''a.txt'' ''alpha'', write_entry ''b/c.txt'' ''alpha''], respond 201 [] tree_T1),
       (create_commit_request example_env ''t0k'' ''init'' ''T1'' ''H0'', respond 201 [] commit_H1),
       (update_ref_request example_env ''t0k'' ''H1'', respond 200 [] ref_at_H1)]"
    by (simp add: run_defs scripted_def happy_script_def respond_def ok_def example_env_def
        ref_at_H0_def commit_H0_def tree_T1_def commit_H1_def ref_at_H1_def no_body_def)
  have req: "update_ref_request example_env ''t0k'' ''H1'' =
     \<lparr>http_verb = PATCH, url = ''https://api.github.com/repos/octo/demo/git/refs/heads/main'',
      headers = [(''Accept'', ''application/vnd.github+json''), (''Authorization'', ''Bearer t0k''),
                 (''X-GitHub-Api-Version'', ''2022-11-28''), (''Content-Type'', ''application/json'')],
      body = Some (JObj [(''sha'', JStr ''H1''), (''force'', JBool False)])\<rparr>"
    by (simp add: update_ref_request_def refUrl_def repo_url_def write_headers_def get_headers_def
        example_env_def)
  have no: "\<not> mentions (update_ref_request example_env ''t0k'' ''H1'') ''H0''"
    by code_simp
  have d: "delivered (respond 200 [] ref_at_H0) = Some ref_at_H0" "object_sha ref_at_H0 = ''H0''"
    by (simp_all add: delivered_def respond_def ok_def ref_at_H0_def no_body_def)
  have other: "snd (snd (commit_files example_env (\<lambda>p. Inr ''alpha'') scripted
                       [''a.txt'', ''b/c.txt''] ''init'' other_base_script)) =
      [(get_ref_request example_env ''t0k'', respond 200 [] (no_body\<lparr>object_sha := ''H9''\<rparr>)),
       (get_commit_request example_env ''t0k'' ''H9'', respond 200 [] commit_H0),
       (create_tree_request example_env ''t0k'' ''T0''
          [write_entry ''a.txt'' ''alpha'', write_entry ''b/c.txt'' ''alpha''], respond 201 [] tree_T1),
       (create_commit_request example_env ''t0k'' ''init'' ''T1'' ''H9'', respond 201 [] commit_H1),
       (update_ref_request example_env ''t0k'' ''H1'', respond 200 [] ref_at_H1)]"
    by (simp add: run_defs scripted_def other_base_script_def happy_script_def respond_def ok_def
        example_env_def ref_at_H0_def commit_H0_def tree_T1_def commit_H1_def ref_at_H1_def no_body_def)
  show ?thesis
    unfolding run other using req no d by simp
qed

text \<open>
  Claim C2 as amended. The request of the Ref Updater is a non-forcing update that
  carries the new commit hash alone: in every run of either handler a request that
  updates the branch reference is the fifth of five, a \<open>PATCH\<close> of the reference whose
  body is the \<open>sha\<close> that the create-commit call delivered and \<open>force\<close> false. The hash
  read in step 1 goes to the store only as the single parent of the new commit. When the
  update is not accepted, the call fails with the rejection of the call or with
  \<open>Failed to update reference:\<close>, the status and the text of the response.
\<close>

theorem update_ref_is_unforced_and_unconditioned:
  assumes run: "commit_files e readFile fetch files msg w = (res, w', log)
                \<or> delete_files e fetch files msg w = (res, w', log)"
    and i: "i < length log" and upd: "updates_ref e (fst (log ! i))"
  shows "i = 4 \<and> length log = 5 \<and>
     (\<exists>tok j1 j3 j4. delivered (snd (log ! 0)) = Some j1 \<and> delivered (snd (log ! 2)) = Some j3 \<and>
        delivered (snd (log ! 3)) = Some j4 \<and>
        fst (log ! 3) = create_commit_request e tok msg (sha j3) (object_sha j1) \<and>
        parents_of (fst (log ! 3)) = Some [JStr (object_sha j1)] \<and>
        fst (log ! 4) = update_ref_request e tok (sha j4) \<and>
        http_verb (fst (log ! 4)) = PATCH \<and> url (fst (log ! 4)) = refUrl e \<and>
        body (fst (log ! 4)) = Some (JObj [(''sha'', JStr (sha j4)), (''force'', JBool False)])) \<and>
     (\<not> accepted (snd (log ! 4)) \<longrightarrow> res = error_result (refusal (snd (log ! 4))))"
proof -
  have seq: "\<exists>tok entries. in_sequence e tok msg entries [] log"
    using run
  proof
    assume "commit_files e readFile fetch files msg w = (res, w', log)"
    with commit_files_in_sequence [of e msg readFile fetch files w] show ?thesis by simp
  next
    assume "delete_files e fetch files msg w = (res, w', log)"
    with delete_files_in_sequence [of e msg fetch files w] show ?thesis by simp
  qed
  then obtain tok entries where s: "in_sequence e tok msg entries [] log" by blast
  from in_sequence_fifth [OF s i upd] obtain j1 j3 j4 where
    i4: "i = 4" and len: "length log = 5" and
    d: "delivered (snd (log ! 0)) = Some j1" "delivered (snd (log ! 2)) = Some j3"
       "delivered (snd (log ! 3)) = Some j4" and
    q4: "fst (log ! 3) = create_commit_request e tok msg (sha j3) (object_sha j1)" and
    q5: "fst (log ! 4) = update_ref_request e tok (sha j4)"
    by blast
  have par: "parents_of (fst (log ! 3)) = Some [JStr (object_sha j1)]"
    by (simp add: q4 parents_of_def create_commit_request_def)
  have shape: "http_verb (fst (log ! 4)) = PATCH" "url (fst (log ! 4)) = refUrl e"
    "body (fst (log ! 4)) = Some (JObj [(''sha'', JStr (sha j4)), (''force'', JBool False)])"
    by (simp_all add: q5 update_ref_request_def)
  have refused: "res = error_result (refusal (snd (log ! 4)))" if na: "\<not> accepted (snd (log ! 4))"
    using run
  proof
    assume c: "commit_files e readFile fetch files msg w = (res, w', log)"
    obtain out where tr: "commit_files_try e readFile fetch files msg (w, []) = (out, w', log)"
      and res: "res = (case out of Inl m \<Rightarrow> error_result m | Inr v \<Rightarrow> success_result v)"
      using c by (auto simp: commit_files_def split: prod.splits sum.splits)
    from commit_files_try_fifth [OF tr len na] res show ?thesis by simp
  next
    assume c: "delete_files e fetch files msg w = (res, w', log)"
    obtain out where tr: "delete_files_try e fetch files msg (w, []) = (out, w', log)"
      and res: "res = (case out of Inl m \<Rightarrow> error_result m | Inr v \<Rightarrow> success_result v)"
      using c by (auto simp: delete_files_def split: prod.splits sum.splits)
    from delete_files_try_fifth [OF tr len na] res show ?thesis by simp
  qed
  have "\<exists>tok j1 j3 j4. delivered (snd (log ! 0)) = Some j1 \<and> delivered (snd (log ! 2)) = Some j3 \<and>
        delivered (snd (log ! 3)) = Some j4 \<and>
        fst (log ! 3) = create_commit_request e tok msg (sha j3) (object_sha j1) \<and>
        parents_of (fst (log ! 3)) = Some [JStr (object_sha j1)] \<and>
        fst (log ! 4) = update_ref_request e tok (sha j4) \<and>
        http_verb (fst (log ! 4)) = PATCH \<and> url (fst (log ! 4)) = refUrl e \<and>
        body (fst (log ! 4)) = Some (JObj [(''sha'', JStr (sha j4)), (''force'', JBool False)])"
    using d q4 q5 par shape by blast
  with i4 len refused show ?thesis by simp
qed


theorem update_ref_is_unforced_and_unconditioned_witness:
  "delete_files example_env (scripted_branch example_env) [''old.txt''] ''drop''
      \<lparr>branch_tip = ''H0'', script = conflict_script\<rparr>
    = (error_result ''Failed to update reference: 422 - Update is not a fast forward'',
       \<lparr>branch_tip = ''H0'', script = []\<rparr>,
       [(get_ref_request example_env ''t0k'', respond 200 [] ref_at_H0),
        (get_commit_request example_env ''t0k'' ''H0'', respond 200 [] commit_H0),
        (create_tree_request example_env ''t0k'' ''T0'' [delete_entry ''old.txt''], respond 201 [] tree_T1),
        (create_commit_request example_env ''t0k'' ''drop'' ''T1'' ''H0'', respond 201 [] commit_H1),
        (update_ref_request example_env ''t0k'' ''H1'',
         Inr \<lparr>status = 422, body_text = ''Update is not a fast forward'', body_json = Inl ''no body''\<rparr>)]) \<and>
   updates_ref example_env (update_ref_request example_env ''t0k'' ''H1'') \<and>
   \<not> accepted (Inr \<lparr>status = 422, body_text = ''Update is not a fast forward'', body_json = Inl ''no body''\<rparr>) \<and>
   body (update_ref_request example_env ''t0k'' ''H1'') = Some (JObj [(''sha'', JStr ''H1''), (''force'', JBool False)]) \<and>
   parents_of (create_commit_request example_env ''t0k'' ''drop'' ''T1'' ''H0'') = Some [JStr ''H0'']"
proof -
  let ?refused = "Inr \<lparr>status = 422, body_text = ''Update is not a fast forward'', body_json = Inl ''no body''\<rparr>
                    :: exn + response"
  let ?log = "[(get_ref_request example_env ''t0k'', respond 200 [] ref_at_H0),
        (get_commit_request example_env ''t0k'' ''H0'', respond 200 [] commit_H0),
        (create_tree_request example_env ''t0k'' ''T0'' [delete_entry ''old.txt''], respond 201 [] tree_T1),
        (create_commit_request example_env ''t0k'' ''drop'' ''T1'' ''H0'', respond 201 [] commit_H1),
        (update_ref_request example_env ''t0k'' ''H1'', ?refused)]"
  have run: "delete_files example_env (scripted_branch example_env) [''old.txt''] ''drop''
      \<lparr>branch_tip = ''H0'', script = conflict_script\<rparr>
    = (error_result ''Failed to update reference: 422 - Update is not a fast forward'',
       \<lparr>branch_tip = ''H0'', script = []\<rparr>, ?log)"
    by (simp add: run_defs scripted_branch_def conflict_script_def happy_script_def respond_def ok_def
        example_env_def ref_at_H0_def commit_H0_def tree_T1_def commit_H1_def ref_at_H1_def no_body_def
        accepted_def show_nat_examples)
  have i: "4 < length ?log" by simp
  have upd: "updates_ref example_env (fst (?log ! 4))" by simp
  have na: "\<not> accepted ?refused" by (simp add: accepted_def ok_def)
  note amended = update_ref_is_unforced_and_unconditioned [OF disjI2 [OF run] i upd]
  from amended na have "error_result ''Failed to update reference: 422 - Update is not a fast forward''
      = error_result (refusal ?refused)"
    by simp
  moreover from amended have
    "body (update_ref_request example_env ''t0k'' ''H1'') = Some (JObj [(''sha'', JStr ''H1''), (''force'', JBool False)])"
    by (simp add: update_ref_request_def)
  moreover have "parents_of (create_commit_request example_env ''t0k'' ''drop'' ''T1'' ''H0'') = Some [JStr ''H0'']"
    by (simp add: parents_of_def create_commit_request_def)
  ultimately show ?thesis using run upd na by simp
qed

subsection \<open>C5: the two entry points and their paths\<close>





subsection \<open>C3: a request with no paths\<close>

text \<open>
  Claim C3 says that a call with an empty list of paths is rejected before any call to
  the store, and that the paths of a request are unique. Neither handler checks
  either. With an empty list, and a store where every call succeeds, \<open>commit_files\<close> and
  \<open>delete_files\<close> make the five calls and report success; and \<open>delete_files\<close> given
  \<open>a.txt\<close> twice asks for a tree with two entries for \<open>a.txt\<close>.
\<close>

theorem empty_request_reaches_the_store:
  "\<not> isError (fst (commit_files example_env missing_file scripted [] ''init'' happy_script)) \<and>
   length (snd (snd (commit_files example_env missing_file scripted [] ''init'' happy_script))) = 5 \<and>
   \<not> isError (fst (delete_files example_env scripted [] ''init'' happy_script)) \<and>
   length (snd (snd (delete_files example_env scripted [] ''init'' happy_script))) = 5 \<and>
   fst (snd (snd (delete_files example_env scripted [''a.txt'', ''a.txt''] ''init'' happy_script)) ! 2)
     = create_tree_request example_env ''t0k'' ''T0'' [delete_entry ''a.txt'', delete_entry ''a.txt'']"
  by (simp add: run_defs scripted_def happy_script_def respond_def ok_def example_env_def
      ref_at_H0_def commit_H0_def tree_T1_def commit_H1_def ref_at_H1_def no_body_def
      error_result_def success_result_def)

text \<open>
  Claim C3 as amended. A call with an empty list of paths is not rejected: once the
  credential is there, \<open>commit_files\<close> and \<open>delete_files\<close> start with the get-ref call as
  for any other list, and when the five calls succeed they create a tree with no
  entries, a commit on it, move the branch and return a success result over an empty
  list of paths. The paths of a request are not made unique: a list with a repeated path
  gives processed paths and tree entries with the repetition.
\<close>

theorem empty_request_is_not_rejected:
  assumes tok: "GITHUB_TOKEN e = Some tok" "tok \<noteq> []"
  shows
   "(\<exists>r rest. snd (snd (commit_files e readFile fetch [] msg w0)) = (get_ref_request e tok, r) # rest) \<and>
    (\<exists>r rest. snd (snd (delete_files e fetch [] msg w0)) = (get_ref_request e tok, r) # rest) \<and>
    (fetch w0 (get_ref_request e tok) = (r1, w1) \<and> delivered r1 = Some j1 \<and>
     fetch w1 (get_commit_request e tok (object_sha j1)) = (r2, w2) \<and> delivered r2 = Some j2 \<and>
     fetch w2 (create_tree_request e tok (tree_sha j2) []) = (r3, w3) \<and> delivered r3 = Some j3 \<and>
     fetch w3 (create_commit_request e tok msg (sha j3) (object_sha j1)) = (r4, w4) \<and>
     delivered r4 = Some j4 \<and>
     fetch w4 (update_ref_request e tok (sha j4)) = (r5, w5) \<and> accepted r5 \<longrightarrow>
       commit_files e readFile fetch [] msg w0 =
         (success_result (simplified_result ''files'' [] j3 j4), w5,
          [(get_ref_request e tok, r1),
           (get_commit_request e tok (object_sha j1), r2),
           (create_tree_request e tok (tree_sha j2) [], r3),
           (create_commit_request e tok msg (sha j3) (object_sha j1), r4),
           (update_ref_request e tok (sha j4), r5)]) \<and>
       delete_files e fetch [] msg w0 =
         (success_result (simplified_result ''deletedFiles'' [] j3 j4), w5,
          [(get_ref_request e tok, r1),
           (get_commit_request e tok (object_sha j1), r2),
           (create_tree_request e tok (tree_sha j2) [], r3),
           (create_commit_request e tok msg (sha j3) (object_sha j1), r4),
           (update_ref_request e tok (sha j4), r5)])) \<and>
    (\<not> distinct files \<longrightarrow> \<not> distinct (commit_processedFiles files)) \<and>
    (\<not> distinct files \<and> read_tree_entries e readFile (commit_processedFiles files) = Inr entries \<longrightarrow>
       \<not> distinct (map entry_path entries)) \<and>
    (\<not> distinct files \<and> delete_processedPaths (cwd e) files = Inr ps \<longrightarrow>
       \<not> distinct ps \<and> \<not> distinct (map entry_path (map delete_entry ps)))"
proof (intro conjI impI)
  show "\<exists>r rest. snd (snd (commit_files e readFile fetch [] msg w0)) = (get_ref_request e tok, r) # rest"
    by (rule commit_files_first_call [OF tok])
  have "delete_processedPaths (cwd e) [] = Inr []" by (simp add: delete_processedPaths_def)
  from delete_files_first_call [OF tok this]
  show "\<exists>r rest. snd (snd (delete_files e fetch [] msg w0)) = (get_ref_request e tok, r) # rest" .
next
  assume h: "fetch w0 (get_ref_request e tok) = (r1, w1) \<and> delivered r1 = Some j1 \<and>
     fetch w1 (get_commit_request e tok (object_sha j1)) = (r2, w2) \<and> delivered r2 = Some j2 \<and>
     fetch w2 (create_tree_request e tok (tree_sha j2) []) = (r3, w3) \<and> delivered r3 = Some j3 \<and>
     fetch w3 (create_commit_request e tok msg (sha j3) (object_sha j1)) = (r4, w4) \<and>
     delivered r4 = Some j4 \<and>
     fetch w4 (update_ref_request e tok (sha j4)) = (r5, w5) \<and> accepted r5"
  have rd: "read_tree_entries e readFile (commit_processedFiles []) = Inr []"
    by (simp add: read_tree_entries_def commit_processedFiles_def)
  have pp: "delete_processedPaths (cwd e) [] = Inr []" by (simp add: delete_processedPaths_def)
  from h have x: "fetch w0 (get_ref_request e tok) = (r1, w1)" "delivered r1 = Some j1"
    "fetch w1 (get_commit_request e tok (object_sha j1)) = (r2, w2)" "delivered r2 = Some j2"
    "fetch w2 (create_tree_request e tok (tree_sha j2) []) = (r3, w3)" "delivered r3 = Some j3"
    "fetch w3 (create_commit_request e tok msg (sha j3) (object_sha j1)) = (r4, w4)"
    "delivered r4 = Some j4"
    "fetch w4 (update_ref_request e tok (sha j4)) = (r5, w5)" "accepted r5"
    by simp_all
  from commit_files_all_delivered [OF tok x(1-4) rd x(5-10)]
  show "commit_files e readFile fetch [] msg w0 =
         (success_result (simplified_result ''files'' [] j3 j4), w5,
          [(get_ref_request e tok, r1),
           (get_commit_request e tok (object_sha j1), r2),
           (create_tree_request e tok (tree_sha j2) [], r3),
           (create_commit_request e tok msg (sha j3) (object_sha j1), r4),
           (update_ref_request e tok (sha j4), r5)])"
    by (simp add: commit_processedFiles_def)
  from x(5) have x5': "fetch w2 (create_tree_request e tok (tree_sha j2) (map delete_entry [])) = (r3, w3)"
    by simp
  from delete_files_all_delivered [OF tok pp x(1-4) x5' x(6-10)]
  show "delete_files e fetch [] msg w0 =
         (success_result (simplified_result ''deletedFiles'' [] j3 j4), w5,
          [(get_ref_request e tok, r1),
           (get_commit_request e tok (object_sha j1), r2),
           (create_tree_request e tok (tree_sha j2) [], r3),
           (create_commit_request e tok msg (sha j3) (object_sha j1), r4),
           (update_ref_request e tok (sha j4), r5)])"
    by simp
next
  assume "\<not> distinct files"
  then show "\<not> distinct (commit_processedFiles files)"
    unfolding commit_processedFiles_def by (rule distinct_mapD)
next
  assume h: "\<not> distinct files \<and> read_tree_entries e readFile (commit_processedFiles files) = Inr entries"
  then have "\<not> distinct (commit_processedFiles files)"
    unfolding commit_processedFiles_def by (simp add: distinct_mapD)
  then have "\<not> distinct (map Some (commit_processedFiles files))"
    by (rule distinct_mapD)
  with read_tree_entries_paths [of e readFile "commit_processedFiles files" entries] h
  show "\<not> distinct (map entry_path entries)" by simp
next
  assume h: "\<not> distinct files \<and> delete_processedPaths (cwd e) files = Inr ps"
  from delete_processedPaths_map [of "cwd e" files ps] h
  show nd: "\<not> distinct ps" by (simp add: distinct_mapD)
  then have "\<not> distinct (map Some ps)" by (rule distinct_mapD)
  then show "\<not> distinct (map entry_path (map delete_entry ps))"
    unfolding delete_entries_paths .
qed



theorem empty_request_is_not_rejected_witness:
  "GITHUB_TOKEN example_env = Some ''t0k'' \<and> ''t0k'' \<noteq> [] \<and>
   scripted happy_script (get_ref_request example_env ''t0k'')
     = (respond 200 [] ref_at_H0, drop 1 happy_script) \<and>
   delivered (respond 200 [] ref_at_H0) = Some ref_at_H0 \<and>
   scripted (drop 1 happy_script) (get_commit_request example_env ''t0k'' (object_sha ref_at_H0))
     = (respond 200 [] commit_H0, drop 2 happy_script) \<and>
   delivered (respond 200 [] commit_H0) = Some commit_H0 \<and>
   scripted (drop 2 happy_script) (create_tree_request example_env ''t0k'' (tree_sha commit_H0) [])
     = (respond 201 [] tree_T1, drop 3 happy_script) \<and>
   delivered (respond 201 [] tree_T1) = Some tree_T1 \<and>
   scripted (drop 3 happy_script)
      (create_commit_request example_env ''t0k'' ''init'' (sha tree_T1) (object_sha ref_at_H0))
     = (respond 201 [] commit_H1, drop 4 happy_script) \<and>
   delivered (respond 201 [] commit_H1) = Some commit_H1 \<and>
   scripted (drop 4 happy_script) (update_ref_request example_env ''t0k'' (sha commit_H1))
     = (respond 200 [] ref_at_H1, []) \<and>
   accepted (respond 200 [] ref_at_H1) \<and>
   commit_files example_env missing_file scripted [] ''init'' happy_script =
     (success_result (simplified_result ''files'' [] tree_T1 commit_H1), [],
      [(get_ref_request example_env ''t0k'', respond 200 [] ref_at_H0),
       (get_commit_request example_env ''t0k'' (object_sha ref_at_H0), respond 200 [] commit_H0),
       (create_tree_request example_env ''t0k'' (tree_sha commit_H0) [], respond 201 [] tree_T1),
       (create_commit_request example_env ''t0k'' ''init'' (sha tree_T1) (object_sha ref_at_H0),
        respond 201 [] commit_H1),
       (update_ref_request example_env ''t0k'' (sha commit_H1), respond 200 [] ref_at_H1)]) \<and>
   delete_files example_env scripted [] ''init'' happy_script =
     (success_result (simplified_result ''deletedFiles'' [] tree_T1 commit_H1), [],
      [(get_ref_request example_env ''t0k'', respond 200 [] ref_at_H0),
       (get_commit_request example_env ''t0k'' (object_sha ref_at_H0), respond 200 [] commit_H0),
       (create_tree_request example_env ''t0k'' (tree_sha commit_H0) [], respond 201 [] tree_T1),
       (create_commit_request example_env ''t0k'' ''init'' (sha tree_T1) (object_sha ref_at_H0),
        respond 201 [] commit_H1),
       (update_ref_request example_env ''t0k'' (sha commit_H1), respond 200 [] ref_at_H1)]) \<and>
   \<not> distinct [''a.txt'', ''a.txt''] \<and>
   \<not> distinct (commit_processedFiles [''a.txt'', ''a.txt'']) \<and>
   read_tree_entries example_env (\<lambda>p. Inr ''alpha'') (commit_processedFiles [''a.txt'', ''a.txt''])
     = Inr [write_entry ''a.txt'' ''alpha'', write_entry ''a.txt'' ''alpha''] \<and>
   \<not> distinct (map entry_path [write_entry ''a.txt'' ''alpha'', write_entry ''a.txt'' ''alpha'']) \<and>
   delete_processedPaths (cwd example_env) [''a.txt'', ''a.txt''] = Inr [''a.txt'', ''a.txt''] \<and>
   \<not> distinct (map entry_path (map delete_entry [''a.txt'', ''a.txt'']))"
proof -
  have tok: "GITHUB_TOKEN example_env = Some ''t0k''" "''t0k'' \<noteq> []"
    by (simp_all add: example_env_def)
  have x: "scripted happy_script (get_ref_request example_env ''t0k'')
              = (respond 200 [] ref_at_H0, drop 1 happy_script)"
    "delivered (respond 200 [] ref_at_H0) = Some ref_at_H0"
    "scripted (drop 1 happy_script) (get_commit_request example_env ''t0k'' (object_sha ref_at_H0))
              = (respond 200 [] commit_H0, drop 2 happy_script)"
    "delivered (respond 200 [] commit_H0) = Some commit_H0"
    "scripted (drop 2 happy_script) (create_tree_request example_env ''t0k'' (tree_sha commit_H0) [])
              = (respond 201 [] tree_T1, drop 3 happy_script)"
    "delivered (respond 201 [] tree_T1) = Some tree_T1"
    "scripted (drop 3 happy_script)
               (create_commit_request example_env ''t0k'' ''init'' (sha tree_T1) (object_sha ref_at_H0))
              = (respond 201 [] commit_H1, drop 4 happy_script)"
    "delivered (respond 201 [] commit_H1) = Some commit_H1"
    "scripted (drop 4 happy_script) (update_ref_request example_env ''t0k'' (sha commit_H1))
              = (respond 200 [] ref_at_H1, [])"
    "accepted (respond 200 [] ref_at_H1)"
    by (simp_all add: scripted_def happy_script_def delivered_def accepted_def respond_def ok_def)
  have dup: "\<not> distinct [''a.txt'', ''a.txt'']" by simp
  have rd: "read_tree_entries example_env (\<lambda>p. Inr ''alpha'') (commit_processedFiles [''a.txt'', ''a.txt''])
     = Inr [write_entry ''a.txt'' ''alpha'', write_entry ''a.txt'' ''alpha'']"
    by (simp add: read_tree_entries_def commit_processedFiles_def startsWith_def)
  have pp: "delete_processedPaths (cwd example_env) [''a.txt'', ''a.txt''] = Inr [''a.txt'', ''a.txt'']"
    by (simp add: delete_processedPaths_def delete_processedPath_def startsWith_def)
  note amended = empty_request_is_not_rejected
    [OF tok, where fetch = scripted and ?w0.0 = happy_script and msg = "''init''"
       and ?r1.0 = "respond 200 [] ref_at_H0" and ?w1.0 = "drop 1 happy_script" and ?j1.0 = ref_at_H0
       and ?r2.0 = "respond 200 [] commit_H0" and ?w2.0 = "drop 2 happy_script" and ?j2.0 = commit_H0
       and ?r3.0 = "respond 201 [] tree_T1" and ?w3.0 = "drop 3 happy_script" and ?j3.0 = tree_T1
       and ?r4.0 = "respond 201 [] commit_H1" and ?w4.0 = "drop 4 happy_script" and ?j4.0 = commit_H1
       and ?r5.0 = "respond 200 [] ref_at_H1" and ?w5.0 = "[]"
       and files = "[''a.txt'', ''a.txt'']" and readFile = missing_file]
  from amended x have runs:
    "commit_files example_env missing_file scripted [] ''init'' happy_script =
     (success_result (simplified_result ''files'' [] tree_T1 commit_H1), [],
      [(get_ref_request example_env ''t0k'', respond 200 [] ref_at_H0),
       (get_commit_request example_env ''t0k'' (object_sha ref_at_H0), respond 200 [] commit_H0),
       (create_tree_request example_env ''t0k'' (tree_sha commit_H0) [], respond 201 [] tree_T1),
       (create_commit_request example_env ''t0k'' ''init'' (sha tree_T1) (object_sha ref_at_H0),
        respond 201 [] commit_H1),
       (update_ref_request example_env ''t0k'' (sha commit_H1), respond 200 [] ref_at_H1)])"
    "delete_files example_env scripted [] ''init'' happy_script =
     (success_result (simplified_result ''deletedFiles'' [] tree_T1 commit_H1), [],
      [(get_ref_request example_env ''t0k'', respond 200 [] ref_at_H0),
       (get_commit_request example_env ''t0k'' (object_sha ref_at_H0), respond 200 [] commit_H0),
       (create_tree_request example_env ''t0k'' (tree_sha commit_H0) [], respond 201 [] tree_T1),
       (create_commit_request example_env ''t0k'' ''init'' (sha tree_T1) (object_sha ref_at_H0),
        respond 201 [] commit_H1),
       (update_ref_request example_env ''t0k'' (sha commit_H1), respond 200 [] ref_at_H1)])"
    by simp_all
  from amended dup have d1: "\<not> distinct (commit_processedFiles [''a.txt'', ''a.txt''])"
    by simp
  note amended' = empty_request_is_not_rejected
    [OF tok, where files = "[''a.txt'', ''a.txt'']" and readFile = "\<lambda>p. Inr ''alpha''"
       and entries = "[write_entry ''a.txt'' ''alpha'', write_entry ''a.txt'' ''alpha'']"
       and ps = "[''a.txt'', ''a.txt'']"]
  from amended' dup rd have d2:
    "\<not> distinct (map entry_path [write_entry ''a.txt'' ''alpha'', write_entry ''a.txt'' ''alpha''])"
    by simp
  from amended' dup pp have d3: "\<not> distinct (map entry_path (map delete_entry [''a.txt'', ''a.txt'']))"
    by simp
  show ?thesis
    using tok x runs dup d1 rd d2 pp d3 by simp
qed

subsection \<open>C9: the paths of commit_files and the files they read\<close>

text \<open>
  Claim C9 says that \<open>commit_files\<close> reads the local file of every processed path from
  the join of the repository directory and the path. Not of every path: \<open>//etc/passwd\<close>
  is processed to \<open>/etc/passwd\<close>, the join of \<open>/work/repo\<close> and that path is
  \<open>/work/repo/etc/passwd\<close>, and the tree entry carries the text of \<open>/etc/passwd\<close>, the
  file of the host, not the text of the file in the repository.
\<close>

theorem double_slash_path_is_read_as_it_stands:
  "commit_processedFiles [''//etc/passwd''] = [''/etc/passwd''] \<and>
   path_join (REPO_DIR example_env) ''/etc/passwd'' = ''/work/repo/etc/passwd'' \<and>
   host_files ''/work/repo/etc/passwd'' = Inr ''a file of the repository'' \<and>
   host_files ''/etc/passwd'' = Inr ''root:x:0:0:root:/root:/bin/sh'' \<and>
   fst (snd (snd (commit_files example_env host_files scripted [''//etc/passwd''] ''init'' happy_script)) ! 2)
     = create_tree_request example_env ''t0k'' ''T0''
         [write_entry ''/etc/passwd'' ''root:x:0:0:root:/root:/bin/sh'']"
  by (simp add: run_defs scripted_def happy_script_def respond_def ok_def example_env_def
      ref_at_H0_def commit_H0_def tree_T1_def commit_H1_def ref_at_H1_def no_body_def
      fullPath_def REPO_DIR_def host_files_def path_join_examples)

text \<open>
  Claim C9 as amended. \<open>commit_files\<close> processes a path by removing one leading \<open>/\<close>, and
  nothing else, and checks no containment: where the credential is there, the first two
  calls deliver and the reads succeed, the third call asks for a tree whose entries
  carry the processed paths as they are, each with the text read from the processed
  path itself when it starts with \<open>/\<close> (an input with two leading \<open>/\<close>), and from the
  join of the repository directory and the processed path otherwise. Either file may lie
  outside the repository directory, as the join of \<open>/work/repo\<close> and \<open>../../etc/passwd\<close>
  does; no validation error is raised.
\<close>

theorem commit_files_reads_without_containment:
  assumes tok: "GITHUB_TOKEN e = Some tok" "tok \<noteq> []"
    and x1: "fetch w0 (get_ref_request e tok) = (r1, w1)" "delivered r1 = Some j1"
    and x2: "fetch w1 (get_commit_request e tok (object_sha j1)) = (r2, w2)" "delivered r2 = Some j2"
    and reads: "\<forall>f\<in>set files.
        readFile (let p = (if f \<noteq> [] \<and> hd f = CHR ''/'' then tl f else f)
                  in if p \<noteq> [] \<and> hd p = CHR ''/'' then p else path_join (REPO_DIR e) p)
          = Inr (texts f)"
  shows
    "commit_processedFiles files = map (\<lambda>f. if f \<noteq> [] \<and> hd f = CHR ''/'' then tl f else f) files \<and>
     (\<exists>r3 rest. snd (snd (commit_files e readFile fetch files msg w0)) =
        (get_ref_request e tok, r1) # (get_commit_request e tok (object_sha j1), r2)
        # (create_tree_request e tok (tree_sha j2)
             (map (\<lambda>f. write_entry (if f \<noteq> [] \<and> hd f = CHR ''/'' then tl f else f) (texts f)) files), r3)
        # rest) \<and>
     path_join ''/work/repo'' ''../../etc/passwd'' = ''/etc/passwd''"
proof (intro conjI)
  let ?g = "\<lambda>f. if f \<noteq> [] \<and> hd f = CHR ''/'' then tl f else f"
  show paths: "commit_processedFiles files = map ?g files"
    by (simp add: commit_processedFiles_def startsWith_slash slice_from_one)
  from reads have "\<forall>f\<in>set files. readFile (fullPath e (?g f)) = Inr (texts f)"
    by (simp add: fullPath_def startsWith_slash Let_def)
  from read_tree_entries_all [OF this]
  have rd: "read_tree_entries e readFile (commit_processedFiles files)
              = Inr (map (\<lambda>f. write_entry (?g f) (texts f)) files)"
    by (simp only: paths)
  from commit_files_third_call [OF tok x1 x2 rd]
  show "\<exists>r3 rest. snd (snd (commit_files e readFile fetch files msg w0)) =
        (get_ref_request e tok, r1) # (get_commit_request e tok (object_sha j1), r2)
        # (create_tree_request e tok (tree_sha j2) (map (\<lambda>f. write_entry (?g f) (texts f)) files), r3)
        # rest" .
  show "path_join ''/work/repo'' ''../../etc/passwd'' = ''/etc/passwd''"
    by (rule path_join_examples)
qed


theorem commit_files_reads_without_containment_witness:
  "GITHUB_TOKEN example_env = Some ''t0k'' \<and> ''t0k'' \<noteq> [] \<and>
   scripted happy_script (get_ref_request example_env ''t0k'')
     = (respond 200 [] ref_at_H0, drop 1 happy_script) \<and>
   delivered (respond 200 [] ref_at_H0) = Some ref_at_H0 \<and>
   scripted (drop 1 happy_script) (get_commit_request example_env ''t0k'' (object_sha ref_at_H0))
     = (respond 200 [] commit_H0, drop 2 happy_script) \<and>
   delivered (respond 200 [] commit_H0) = Some commit_H0 \<and>
   host_files ''/etc/passwd'' = Inr ''root:x:0:0:root:/root:/bin/sh'' \<and>
   host_files (path_join (REPO_DIR example_env) ''../../etc/passwd'') = Inr ''root:x:0:0:root:/root:/bin/sh'' \<and>
   host_files (path_join (REPO_DIR example_env) ''a.txt'') = Inr ''alpha'' \<and>
   commit_processedFiles [''//etc/passwd'', ''../../etc/passwd'', ''a.txt'']
     = [''/etc/passwd'', ''../../etc/passwd'', ''a.txt''] \<and>
   (\<exists>r3 rest.
      snd (snd (commit_files example_env host_files scripted
                  [''//etc/passwd'', ''../../etc/passwd'', ''a.txt''] ''init'' happy_script)) =
        (get_ref_request example_env ''t0k'', respond 200 [] ref_at_H0)
        # (get_commit_request example_env ''t0k'' (object_sha ref_at_H0), respond 200 [] commit_H0)
        # (create_tree_request example_env ''t0k'' (tree_sha commit_H0)
             [write_entry ''/etc/passwd'' ''root:x:0:0:root:/root:/bin/sh'',
              write_entry ''../../etc/passwd'' ''root:x:0:0:root:/root:/bin/sh'',
              write_entry ''a.txt'' ''alpha''], r3)
        # rest)"
proof -
  let ?files = "[''//etc/passwd'', ''../../etc/passwd'', ''a.txt'']"
  let ?texts = "\<lambda>f. if f = ''a.txt'' then ''alpha'' else ''root:x:0:0:root:/root:/bin/sh''"
  have tok: "GITHUB_TOKEN example_env = Some ''t0k''" "''t0k'' \<noteq> []"
    by (simp_all add: example_env_def)
  have x1: "scripted happy_script (get_ref_request example_env ''t0k'')
              = (respond 200 [] ref_at_H0, drop 1 happy_script)"
    "delivered (respond 200 [] ref_at_H0) = Some ref_at_H0"
    and x2: "scripted (drop 1 happy_script) (get_commit_request example_env ''t0k'' (object_sha ref_at_H0))
              = (respond 200 [] commit_H0, drop 2 happy_script)"
    "delivered (respond 200 [] commit_H0) = Some commit_H0"
    by (simp_all add: scripted_def happy_script_def delivered_def respond_def ok_def)
  have dir: "REPO_DIR example_env = ''/work/repo''"
    by (simp add: REPO_DIR_def example_env_def)
  have files: "host_files ''/etc/passwd'' = Inr ''root:x:0:0:root:/root:/bin/sh''"
    "host_files (path_join (REPO_DIR example_env) ''../../etc/passwd'') = Inr ''root:x:0:0:root:/root:/bin/sh''"
    "host_files (path_join (REPO_DIR example_env) ''a.txt'') = Inr ''alpha''"
    by (simp_all add: dir path_join_examples host_files_def)
  have reads: "\<forall>f\<in>set ?files.
        host_files (let p = (if f \<noteq> [] \<and> hd f = CHR ''/'' then tl f else f)
                    in if p \<noteq> [] \<and> hd p = CHR ''/'' then p else path_join (REPO_DIR example_env) p)
          = Inr (?texts f)"
    using files by simp
  note amended = commit_files_reads_without_containment
    [OF tok x1 x2 reads, where msg = "''init''"]
  from amended have paths: "commit_processedFiles ?files = [''/etc/passwd'', ''../../etc/passwd'', ''a.txt'']"
    by simp
  from amended have third: "\<exists>r3 rest.
      snd (snd (commit_files example_env host_files scripted ?files ''init'' happy_script)) =
        (get_ref_request example_env ''t0k'', respond 200 [] ref_at_H0)
        # (get_commit_request example_env ''t0k'' (object_sha ref_at_H0), respond 200 [] commit_H0)
        # (create_tree_request example_env ''t0k'' (tree_sha commit_H0)
             [write_entry ''/etc/passwd'' ''root:x:0:0:root:/root:/bin/sh'',
              write_entry ''../../etc/passwd'' ''root:x:0:0:root:/root:/bin/sh'',
              write_entry ''a.txt'' ''alpha''], r3)
        # rest"
    by simp
  show ?thesis
    using tok x1 x2 files paths third by simp
qed

subsection \<open>C4: an absolute path given to commit_files\<close>

text \<open>
  Claim C4 asks that a write entry for an absolute local path outside the repository
  root, such as \<open>/etc/passwd\<close> with the root \<open>/work/repo\<close>, is rejected with a
  path-validation error before any call to the store. \<open>delete_files\<close> does reject that
  path, before any call; \<open>commit_files\<close> does not. It turns \<open>/etc/passwd\<close> into
  \<open>etc/passwd\<close>, makes the five calls and commits the file of that name inside the
  repository; and given \<open>//etc/passwd\<close> it makes the five calls and commits the text of
  the file \<open>/etc/passwd\<close> of the host.
\<close>

theorem absolute_path_is_committed_not_rejected:
  "delete_files example_env scripted [''/etc/passwd''] ''drop'' happy_script =
     (error_result (''Path '' @ [CHR 0x27] @ ''/etc/passwd'' @ [CHR 0x27]
                    @ '' must be relative to repository root or within current working directory''),
      happy_script, []) \<and>
   commit_files example_env host_files scripted [''/etc/passwd''] ''init'' happy_script =
     (success_result (simplified_result ''files'' [''etc/passwd''] tree_T1 commit_H1), [],
      [(get_ref_request example_env ''t0k'', respond 200 [] ref_at_H0),
       (get_commit_request example_env ''t0k'' ''H0'', respond 200 [] commit_H0),
       (create_tree_request example_env ''t0k'' ''T0''
          [write_entry ''etc/passwd'' ''a file of the repository''], respond 201 [] tree_T1),
       (create_commit_request example_env ''t0k'' ''init'' ''T1'' ''H0'', respond 201 [] commit_H1),
       (update_ref_request example_env ''t0k'' ''H1'', respond 200 [] ref_at_H1)]) \<and>
   commit_files example_env host_files scripted [''//etc/passwd''] ''init'' happy_script =
     (success_result (simplified_result ''files'' [''/etc/passwd''] tree_T1 commit_H1), [],
      [(get_ref_request example_env ''t0k'', respond 200 [] ref_at_H0),
       (get_commit_request example_env ''t0k'' ''H0'', respond 200 [] commit_H0),
       (create_tree_request example_env ''t0k'' ''T0''
          [write_entry ''/etc/passwd'' ''root:x:0:0:root:/root:/bin/sh''], respond 201 [] tree_T1),
       (create_commit_request example_env ''t0k'' ''init'' ''T1'' ''H0'', respond 201 [] commit_H1),
       (update_ref_request example_env ''t0k'' ''H1'', respond 200 [] ref_at_H1)])"
  by (simp add: run_defs scripted_def happy_script_def respond_def ok_def example_env_def
      ref_at_H0_def commit_H0_def tree_T1_def commit_H1_def ref_at_H1_def no_body_def
      fullPath_def REPO_DIR_def host_files_def path_join_examples simplified_result_def
      commit_summary_def path_list_def)

subsection \<open>C6: what a failed call leaves of the store's answer\<close>

text \<open>
  Claim C6 asks that the error raised for a response that is not \<open>ok\<close> keeps the text of
  the store's error payload. The three writing steps do keep it; the two reading steps
  do not. When get-ref is answered \<open>404\<close> with the text \<open>Branch not found\<close>, the error of
  \<open>commit_files\<close> is \<open>Failed to get branch reference: 404\<close> and the text is gone; the same
  holds for get-commit, and for both steps of \<open>delete_files\<close>. When create-tree is
  answered \<open>422\<close> the error ends with the text of the response.
\<close>

theorem reading_steps_drop_the_payload_text:
  "commit_files example_env host_files scripted [''a.txt''] ''init'' [refuse 404 ''Branch not found''] =
     (error_result ''Failed to get branch reference: 404'', [],
      [(get_ref_request example_env ''t0k'', refuse 404 ''Branch not found'')]) \<and>
   \<not> sublist ''Branch not found'' ''Failed to get branch reference: 404'' \<and>
   fst (commit_files example_env host_files scripted [''a.txt''] ''init''
          [respond 200 [] ref_at_H0, refuse 404 ''No commit found for SHA: H0''])
     = error_result ''Failed to get base commit: 404'' \<and>
   fst (delete_files example_env scripted [''a.txt''] ''drop'' [refuse 404 ''Branch not found''])
     = error_result ''Failed to get branch reference: 404'' \<and>
   fst (delete_files example_env scripted [''a.txt''] ''drop''
          [respond 200 [] ref_at_H0, refuse 404 ''No commit found for SHA: H0''])
     = error_result ''Failed to get base commit: 404'' \<and>
   fst (commit_files example_env host_files scripted [''a.txt''] ''init''
          [respond 200 [] ref_at_H0, respond 200 [] commit_H0,
           refuse 422 ''tree.path contains a malformed path component''])
     = error_result ''Failed to create tree: 422 - tree.path contains a malformed path component''"
proof -
  have "\<not> sublist ''Branch not found'' ''Failed to get branch reference: 404''"
    by code_simp
  then show ?thesis
    by (simp add: run_defs scripted_def refuse_def respond_def ok_def example_env_def
        ref_at_H0_def commit_H0_def no_body_def fullPath_def REPO_DIR_def host_files_def
        path_join_examples show_nat_examples)
qed

subsection \<open>C8: an absolute path given to delete_files\<close>

text \<open>
  Claim C8 says that \<open>delete_files\<close> turns an absolute path that starts with the working
  directory into a path relative to the repository, by removing the working directory
  and the separator after it, and throws for any other absolute path. The test is on
  the characters, not on the segments of the path: with the working directory
  \<open>/work/repo\<close> the path \<open>/work/repo2/x\<close> of a sibling directory passes it, loses
  \<open>/work/repo\<close> and the \<open>2\<close>, and is sent to the store as \<open>/x\<close>; the working directory
  itself becomes the empty path; and with the working directory \<open>/\<close> the path
  \<open>/etc/passwd\<close> becomes \<open>tc/passwd\<close>. A path inside the working directory is handled
  as the claim says.
\<close>

theorem cwd_prefix_is_tested_on_characters:
  "startsWith ''/work/repo2/x'' ''/work/repo'' \<and>
   delete_processedPaths ''/work/repo'' [''/work/repo2/x''] = Inr [''/x''] \<and>
   delete_processedPaths ''/work/repo'' [''/work/repo''] = Inr [[]] \<and>
   delete_processedPaths ''/'' [''/etc/passwd''] = Inr [''tc/passwd''] \<and>
   delete_processedPaths ''/work/repo'' [''/work/repo/src/old.js''] = Inr [''src/old.js''] \<and>
   delete_files example_env scripted [''/work/repo2/x''] ''drop'' happy_script =
     (success_result (simplified_result ''deletedFiles'' [''/x''] tree_T1 commit_H1), [],
      [(get_ref_request example_env ''t0k'', respond 200 [] ref_at_H0),
       (get_commit_request example_env ''t0k'' ''H0'', respond 200 [] commit_H0),
       (create_tree_request example_env ''t0k'' ''T0'' [delete_entry ''/x''], respond 201 [] tree_T1),
       (create_commit_request example_env ''t0k'' ''drop'' ''T1'' ''H0'', respond 201 [] commit_H1),
       (update_ref_request example_env ''t0k'' ''H1'', respond 200 [] ref_at_H1)])"
  by (simp add: run_defs scripted_def happy_script_def respond_def ok_def example_env_def
      ref_at_H0_def commit_H0_def tree_T1_def commit_H1_def ref_at_H1_def no_body_def
      simplified_result_def commit_summary_def path_list_def)

end
